theory Spec2Isabelle
  imports Complex_Main
begin

section \<open>JavaScript values used by the extension\<close>

text \<open>
  The development follows the later of the two revisions of \<open>index.js\<close> (the one with
  the provider selection). The functions modelled here are the same in both revisions
  except \<open>generateEmbedding\<close> (the request headers and the default URL; what it does
  with the response is the same) and the API-key test of \<open>bufferMessage\<close> and
  \<open>indexCharacterChats\<close>, which the earlier revision makes on \<open>openaiApiKey\<close> alone.

  A JavaScript number is a real or \<open>NaN\<close>. The infinities are left out: JSON cannot
  carry them; the initial \<open>Number.POSITIVE_INFINITY\<close> of \<open>createChunkFromMessages\<close>
  is modelled where it occurs. A string is the list of its code units, of which only
  those below 128 are told apart by \<open>trim\<close> and \<open>toLowerCase\<close>.
\<close>

datatype jsnum = NaN | Num real

text \<open>
  The \<open>send_date\<close> of a host message: a \<open>Date\<close> object (with its time value, \<open>NaN\<close>
  for an invalid date), a number, a string, or nothing (\<open>undefined\<close>).
\<close>

datatype send_date = DateObj jsnum | Number jsnum | String string | Undefined

text \<open>A parsed JSON document; an object is the list of its members.\<close>

datatype json =
    JNull
  | JBool bool
  | JNum real
  | JStr string
  | JArr "json list"
  | JObj "(string \<times> json) list"

text \<open>
  An \<open>async\<close> function either resolves with a value or rejects (an exception left it).
\<close>

datatype 'a promise = Rejected | Resolved 'a

text \<open>
  Built-ins of the JavaScript host that the source calls and does not define:
  \<open>Number(s)\<close> and \<open>Date.parse(s)\<close> on a string, the template-literal conversion of a
  \<open>send_date\<close> value, \<open>new Date(v).toISOString().split("T")[0]\<close> (\<open>None\<close> when
  \<open>toISOString\<close> throws a \<open>RangeError\<close>), and \<open>x.toFixed(0)\<close>.
\<close>

record host =
  js_Number :: "string \<Rightarrow> jsnum"
  Date_parse :: "string \<Rightarrow> jsnum"
  js_String :: "send_date \<Rightarrow> string"
  isoDate :: "send_date \<Rightarrow> string option"
  toFixed0 :: "real \<Rightarrow> string"

abbreviation (input) NL :: string where
  "NL \<equiv> [CHR 0x0A]"

definition is_space :: "char \<Rightarrow> bool" where
  "is_space c = (c \<in> set [CHR 0x09, CHR 0x0A, CHR 0x0B, CHR 0x0C, CHR 0x0D, CHR 0x20])"

text \<open>\<open>String.prototype.trim\<close>: white space goes from both ends.\<close>

definition trim :: "string \<Rightarrow> string" where
  "trim s = rev (dropWhile is_space (rev (dropWhile is_space s)))"

definition toLowerCase :: "string \<Rightarrow> string" where
  "toLowerCase s =
     map (\<lambda>c. case map_of (zip ''ABCDEFGHIJKLMNOPQRSTUVWXYZ'' ''abcdefghijklmnopqrstuvwxyz'') c of
                Some l \<Rightarrow> l
              | None \<Rightarrow> c) s"

text \<open>\<open>Array.prototype.join\<close>.\<close>

fun join :: "string \<Rightarrow> string list \<Rightarrow> string" where
  "join sep [] = []"
| "join sep [x] = x"
| "join sep (x # y # ys) = x @ sep @ join sep (y # ys)"

text \<open>Comparison of two strings by \<open><\<close>: code unit by code unit, a proper prefix first.\<close>

fun str_lt :: "string \<Rightarrow> string \<Rightarrow> bool" where
  "str_lt [] [] = False"
| "str_lt [] (y # ys) = True"
| "str_lt (x # xs) [] = False"
| "str_lt (x # xs) (y # ys) =
     ((of_char x :: nat) < of_char y \<or> (x = y \<and> str_lt xs ys))"

text \<open>Truthiness of a JSON value and of a \<open>send_date\<close>.\<close>

fun truthy :: "json \<Rightarrow> bool" where
  "truthy JNull = False"
| "truthy (JBool b) = b"
| "truthy (JNum r) = (r \<noteq> 0)"
| "truthy (JStr s) = (s \<noteq> [])"
| "truthy (JArr xs) = True"
| "truthy (JObj kv) = True"

fun truthy_date :: "send_date \<Rightarrow> bool" where
  "truthy_date (DateObj t) = True"
| "truthy_date (Number NaN) = False"
| "truthy_date (Number (Num r)) = (r \<noteq> 0)"
| "truthy_date (String s) = (s \<noteq> [])"
| "truthy_date Undefined = False"

text \<open>\<open>ToNumber\<close> of a \<open>send_date\<close> value, as the relational operators apply it.\<close>

fun toNumber :: "host \<Rightarrow> send_date \<Rightarrow> jsnum" where
  "toNumber h (DateObj t) = t"
| "toNumber h (Number n) = n"
| "toNumber h (String s) = js_Number h s"
| "toNumber h Undefined = NaN"

section \<open>Settings and host data\<close>

record settings =
  enabled :: bool
  provider :: string
  apiKey :: string
  baseUrl :: string
  qdrantUrl :: string
  collectionName :: string
  openaiApiKey :: string
  embeddingModel :: string
  memoryLimit :: nat
  scoreThreshold :: real
  memoryPosition :: nat
  usePerCharacterCollections :: bool
  autoSaveMemories :: bool
  saveUserMessages :: bool
  saveCharacterMessages :: bool
  minMessageLength :: nat
  showMemoryNotifications :: bool
  retainRecentMessages :: nat
  chunkMinSize :: nat
  chunkMaxSize :: nat
  chunkTimeout :: nat

definition defaultSettings :: settings where
  "defaultSettings = \<lparr>
     enabled = True, provider = ''openai'', apiKey = '''',
     baseUrl = ''https://api.openai.com/v1/embeddings'',
     qdrantUrl = ''http://localhost:6333'', collectionName = ''mem'',
     openaiApiKey = '''', embeddingModel = ''text-embedding-3-large'',
     memoryLimit = 5, scoreThreshold = 0.3, memoryPosition = 2,
     usePerCharacterCollections = True, autoSaveMemories = True,
     saveUserMessages = True, saveCharacterMessages = True,
     minMessageLength = 5, showMemoryNotifications = True,
     retainRecentMessages = 5, chunkMinSize = 1200, chunkMaxSize = 1500,
     chunkTimeout = 30000 \<rparr>"

text \<open>
  A message of the host's chat array. A missing \<open>name\<close> or \<open>mes\<close> is the empty string
  (both are only tested for truthiness), a missing flag is \<open>False\<close>; \<open>qdrantMemory\<close> is
  the marker property \<open>__qdrantMemory\<close>. Every entry of the array is an object.
\<close>

record message =
  name :: string
  is_user :: bool
  is_system :: bool
  mes :: string
  send_date :: send_date
  qdrantMemory :: bool

text \<open>What \<open>getContext()\<close> returns.\<close>

record hostContext =
  name2 :: string
  characters :: "string list"
  chat :: "message list"

section \<open>Temporal normalizer\<close>

text \<open>\<open>normalizeSendDate\<close>; the result \<open>None\<close> is the source's \<open>null\<close>.\<close>

fun normalizeSendDate :: "host \<Rightarrow> send_date \<Rightarrow> jsnum option" where
  "normalizeSendDate h (DateObj t) = Some t"
| "normalizeSendDate h (Number n) = Some n"
| "normalizeSendDate h (String s) =
     (let numeric = js_Number h s in
      if numeric \<noteq> NaN then Some numeric
      else let parsed = Date_parse h s in
        if parsed \<noteq> NaN then Some parsed else None)"
| "normalizeSendDate h Undefined = None"

definition isQdrantMemoryMessage :: "message \<Rightarrow> bool" where
  "isQdrantMemoryMessage m = qdrantMemory m"

definition getConversationMessages :: "host \<Rightarrow> message list \<Rightarrow> message list" where
  "getConversationMessages h c =
     filter (\<lambda>msg. if isQdrantMemoryMessage msg then False
                    else normalizeSendDate h (send_date msg) \<noteq> None) c"

text \<open>
  \<open>removeExistingMemoryEntries\<close> walks the array from its last index down and splices
  every tagged entry out; the model returns the array that is left.
\<close>

fun removeFrom :: "nat \<Rightarrow> message list \<Rightarrow> message list" where
  "removeFrom 0 c = c"
| "removeFrom (Suc i) c =
     removeFrom i (if isQdrantMemoryMessage (c ! i) then take i c @ drop (Suc i) c else c)"

definition removeExistingMemoryEntries :: "message list \<Rightarrow> message list" where
  "removeExistingMemoryEntries c = removeFrom (length c) c"

section \<open>Collection router\<close>

definition sanitize_char :: "char \<Rightarrow> char" where
  "sanitize_char c =
     (if c \<in> set ''abcdefghijklmnopqrstuvwxyz0123456789_-'' then c else CHR ''_'')"

text \<open>\<open>replace(/_+/g, "_")\<close>: every run of underscores becomes one.\<close>

fun collapse :: "string \<Rightarrow> string" where
  "collapse [] = []"
| "collapse [c] = [c]"
| "collapse (c # d # cs) =
     (if c = CHR ''_'' \<and> d = CHR ''_'' then collapse (d # cs) else c # collapse (d # cs))"

text \<open>\<open>replace(/^_|_$/g, "")\<close>: one underscore goes from each end.\<close>

definition strip_ends :: "string \<Rightarrow> string" where
  "strip_ends s =
     (let s1 = (case s of [] \<Rightarrow> [] | c # cs \<Rightarrow> if c = CHR ''_'' then cs else s)
      in if s1 \<noteq> [] \<and> last s1 = CHR ''_'' then butlast s1 else s1)"

definition getCollectionName :: "settings \<Rightarrow> string \<Rightarrow> string" where
  "getCollectionName st cname =
     (if \<not> usePerCharacterCollections st then collectionName st
      else collectionName st @ ''_'' @
             strip_ends (collapse (map sanitize_char (toLowerCase cname))))"

section \<open>Embedding provider adapter\<close>

text \<open>
  \<open>generateEmbedding\<close> reads its configuration from the host global
  \<open>extension_settings\<close>, which the file never declares: the global may be missing
  (a \<open>ReferenceError\<close>), hold no object, or hold an object whose \<open>qdrantMemory\<close>
  member is there or not. A missing member of the configuration is the empty string.
\<close>

record embed_cfg =
  cfg_provider :: string
  cfg_apiKey :: string
  cfg_openaiApiKey :: string
  cfg_embeddingModel :: string
  cfg_baseUrl :: string

datatype ext_global = Undeclared | NoObject | ExtensionSettings "embed_cfg option"

datatype req_body = Input string string | Inputs string

record request =
  url :: string
  headers :: "(string \<times> string) list"
  body :: req_body

text \<open>
  What \<open>fetch\<close> gives back: it rejects, or it resolves with a response that has the
  \<open>ok\<close> flag and a body, which \<open>response.json()\<close> parses (\<open>None\<close> when it rejects).
\<close>

datatype http = NetworkError | Response bool "json option"

text \<open>\<open>a || b\<close> on strings.\<close>

definition or_else :: "string \<Rightarrow> string \<Rightarrow> string" where
  "or_else a b = (if a \<noteq> [] then a else b)"

definition bearer :: "string \<Rightarrow> (string \<times> string) list" where
  "bearer k = (if k \<noteq> [] then [(''Authorization'', ''Bearer '' @ k)] else [])"

definition embedding_request :: "embed_cfg \<Rightarrow> string \<Rightarrow> request" where
  "embedding_request cfg txt =
     (let prov = or_else (cfg_provider cfg) ''openai'';
          key = or_else (cfg_apiKey cfg) (or_else (cfg_openaiApiKey cfg) []);
          model = or_else (cfg_embeddingModel cfg) ''text-embedding-3-large'';
          customUrl = or_else (cfg_baseUrl cfg) ''https://api.openai.com/v1/embeddings'';
          p = toLowerCase prov
      in if p = ''openrouter'' then
           \<lparr> url = ''https://openrouter.ai/api/v1/embeddings'',
             headers = (''Content-Type'', ''application/json'') # bearer key,
             body = Input txt model \<rparr>
         else if p = ''huggingface'' then
           \<lparr> url = ''https://api-inference.huggingface.co/pipeline/feature-extraction/'' @ model,
             headers = (if key \<noteq> [] then bearer key
                        else [(''Content-Type'', ''application/json'')]),
             body = Inputs txt \<rparr>
         else if p = ''custom'' then
           \<lparr> url = customUrl,
             headers = (''Content-Type'', ''application/json'') # bearer key,
             body = Input txt model \<rparr>
         else
           \<lparr> url = or_else customUrl ''https://api.openai.com/v1/embeddings'',
             headers = (''Content-Type'', ''application/json'') # bearer key,
             body = Input txt model \<rparr>)"

text \<open>
  Member access on a parsed value; \<open>None\<close> is \<open>undefined\<close>. \<open>index0 v\<close> is \<open>v[0]\<close> and
  \<open>member k v\<close> is \<open>v.k\<close> for the keys \<open>data\<close> and \<open>embedding\<close>, neither applied to
  \<open>null\<close> (where the source throws a \<open>TypeError\<close>).
\<close>

fun index0 :: "json \<Rightarrow> json option" where
  "index0 (JArr xs) = (case xs of [] \<Rightarrow> None | x # _ \<Rightarrow> Some x)"
| "index0 (JStr s) = (case s of [] \<Rightarrow> None | c # _ \<Rightarrow> Some (JStr [c]))"
| "index0 (JObj kv) = map_of kv ''0''"
| "index0 _ = None"

fun member :: "string \<Rightarrow> json \<Rightarrow> json option" where
  "member k (JObj kv) = map_of kv k"
| "member k _ = None"

text \<open>\<open>json.data?.[0]?.embedding\<close> on a value that is not \<open>null\<close>.\<close>

definition data0_embedding :: "json \<Rightarrow> json option" where
  "data0_embedding j =
     (case member ''data'' j of
        None \<Rightarrow> None
      | Some JNull \<Rightarrow> None
      | Some d \<Rightarrow>
          (case index0 d of
             None \<Rightarrow> None
           | Some JNull \<Rightarrow> None
           | Some e \<Rightarrow> member ''embedding'' e))"

text \<open>
  The part of \<open>generateEmbedding\<close> after \<open>response.json()\<close>. The result \<open>None\<close> is the
  \<open>null\<close> it returns, also from its \<open>catch\<close> when \<open>json\<close> is \<open>null\<close>. The provider
  is compared as it is configured, not in lower case.
\<close>

definition extract_embedding :: "string \<Rightarrow> json \<Rightarrow> json option" where
  "extract_embedding prov j =
     (if j = JNull then None
      else if prov = ''huggingface'' then
        (case index0 j of Some (JArr v) \<Rightarrow> Some (JArr v) | _ \<Rightarrow> Some j)
      else
        (case data0_embedding j of
           Some e \<Rightarrow> if truthy e then Some e else None
         | None \<Rightarrow> None))"

definition generateEmbedding ::
  "ext_global \<Rightarrow> (request \<Rightarrow> http) \<Rightarrow> string \<Rightarrow> json option promise" where
  "generateEmbedding ext fetch txt =
     (case ext of
        Undeclared \<Rightarrow> Rejected
      | NoObject \<Rightarrow> Rejected
      | ExtensionSettings q \<Rightarrow>
          (let cfg = (case q of Some c \<Rightarrow> c
                      | None \<Rightarrow> \<lparr> cfg_provider = [], cfg_apiKey = [],
                                    cfg_openaiApiKey = [], cfg_embeddingModel = [],
                                    cfg_baseUrl = [] \<rparr>);
               prov = or_else (cfg_provider cfg) ''openai''
           in case fetch (embedding_request cfg txt) of
                NetworkError \<Rightarrow> Resolved None
              | Response ok b \<Rightarrow>
                  if \<not> ok then Resolved None
                  else (case b of
                          None \<Rightarrow> Resolved None
                        | Some j \<Rightarrow> Resolved (extract_embedding prov j))))"

text \<open>A numeric vector: an array of numbers.\<close>

fun is_vector :: "json \<Rightarrow> bool" where
  "is_vector (JArr xs) = list_all (\<lambda>x. case x of JNum r \<Rightarrow> True | _ \<Rightarrow> False) xs"
| "is_vector _ = False"

section \<open>Chunk builder\<close>

text \<open>
  An entry of the message buffer, and the message object of the replay path, which has
  a \<open>timestamp\<close> as well.
\<close>

record turn =
  turn_text :: string
  characterName :: string
  isUser :: bool
  messageId :: string

record messageObj = turn +
  timestamp :: send_date

record chunk =
  chunk_text :: string
  speakers :: "string list"
  messageIds :: "string list"
  messageCount :: nat
  chunk_timestamp :: send_date

definition speaker_of :: "'a turn_scheme \<Rightarrow> string" where
  "speaker_of msg = (if isUser msg then ''You'' else characterName msg)"

definition line_of :: "'a turn_scheme \<Rightarrow> string" where
  "line_of msg = speaker_of msg @ '': '' @ turn_text msg @ NL"

text \<open>\<open>Set.prototype.add\<close>, the set kept in insertion order as \<open>Array.from\<close> reads it.\<close>

definition set_add :: "string list \<Rightarrow> string \<Rightarrow> string list" where
  "set_add S x = (if x \<in> set S then S else S @ [x])"

text \<open>The date prefix, left out when formatting the date throws.\<close>

definition with_date_prefix :: "host \<Rightarrow> send_date \<Rightarrow> string \<Rightarrow> string" where
  "with_date_prefix h t finalText =
     (case isoDate h t of
        Some dateStr \<Rightarrow> ''['' @ dateStr @ '']'' @ NL @ finalText
      | None \<Rightarrow> finalText)"

text \<open>
  \<open>createChunkFromBuffer\<close>: the body of its \<open>forEach\<close> works on \<open>chunkText\<close>,
  \<open>speakers\<close>, \<open>messageIds\<close> and \<open>totalLength\<close>; \<open>now\<close> is what \<open>Date.now()\<close> returns.
\<close>

definition buffer_step ::
  "string \<times> string list \<times> string list \<times> nat \<Rightarrow> turn
     \<Rightarrow> string \<times> string list \<times> string list \<times> nat" where
  "buffer_step acc msg =
     (case acc of (chunkText, sp, ids, totalLength) \<Rightarrow>
        (chunkText @ line_of msg, set_add sp (speaker_of msg), ids @ [messageId msg],
         totalLength + length (line_of msg)))"

definition createChunkFromBuffer :: "host \<Rightarrow> real \<Rightarrow> turn list \<Rightarrow> chunk option" where
  "createChunkFromBuffer h now messageBuffer =
     (if messageBuffer = [] then None
      else case foldl buffer_step ([], [], [], 0) messageBuffer of
        (chunkText, sp, ids, totalLength) \<Rightarrow>
          Some \<lparr> chunk_text = with_date_prefix h (Number (Num now)) (trim chunkText),
                 speakers = sp,
                 messageIds = ids,
                 messageCount = length messageBuffer,
                 chunk_timestamp = Number (Num now) \<rparr>)"

text \<open>
  \<open>a < b\<close> on two timestamps: two strings are compared as strings, anything else as
  numbers, and a comparison with \<open>NaN\<close> is false. \<open>before_oldest\<close> compares with
  \<open>oldestTimestamp\<close>, which is \<open>None\<close> while it is still \<open>Number.POSITIVE_INFINITY\<close>.
\<close>

definition js_lt :: "host \<Rightarrow> send_date \<Rightarrow> send_date \<Rightarrow> bool" where
  "js_lt h a b =
     (case (a, b) of
        (String x, String y) \<Rightarrow> str_lt x y
      | _ \<Rightarrow> (case (toNumber h a, toNumber h b) of
                 (Num x, Num y) \<Rightarrow> x < y
               | _ \<Rightarrow> False))"

definition before_oldest :: "host \<Rightarrow> send_date \<Rightarrow> send_date option \<Rightarrow> bool" where
  "before_oldest h t oldest =
     (case oldest of
        None \<Rightarrow> toNumber h t \<noteq> NaN
      | Some b \<Rightarrow> js_lt h t b)"

definition messages_step ::
  "host \<Rightarrow> string \<times> string list \<times> string list \<times> send_date option \<Rightarrow> messageObj
     \<Rightarrow> string \<times> string list \<times> string list \<times> send_date option" where
  "messages_step h acc msg =
     (case acc of (chunkText, sp, ids, oldestTimestamp) \<Rightarrow>
        (chunkText @ line_of msg, set_add sp (speaker_of msg), ids @ [messageId msg],
         if before_oldest h (timestamp msg) oldestTimestamp then Some (timestamp msg)
         else oldestTimestamp))"

definition createChunkFromMessages :: "host \<Rightarrow> real \<Rightarrow> messageObj list \<Rightarrow> chunk" where
  "createChunkFromMessages h now messages =
     (case foldl (messages_step h) ([], [], [], None) messages of
        (chunkText, sp, ids, oldestTimestamp) \<Rightarrow>
          \<lparr> chunk_text = (case oldestTimestamp of
                            Some t \<Rightarrow> with_date_prefix h t (trim chunkText)
                          | None \<Rightarrow> trim chunkText),
            speakers = sp,
            messageIds = ids,
            messageCount = length messages,
            chunk_timestamp = (case oldestTimestamp of
                                 Some t \<Rightarrow> t
                               | None \<Rightarrow> Number (Num now)) \<rparr>)"

section \<open>Participants\<close>

definition getChatParticipants :: "hostContext \<Rightarrow> string list" where
  "getChatParticipants ctx =
     (if length (characters ctx) > 1 then
        foldl (\<lambda>participants msg.
                 if \<not> is_user msg \<and> name msg \<noteq> [] \<and> name msg \<noteq> ''System''
                 then set_add participants (name msg) else participants)
          (if name2 ctx \<noteq> [] then [name2 ctx] else [])
          (drop (length (chat ctx) - 50) (chat ctx))
      else if name2 ctx \<noteq> [] then [name2 ctx] else [])"

section \<open>Storage writes\<close>

record payload =
  payload_text :: string
  payload_speakers :: string
  payload_messageCount :: nat
  payload_timestamp :: send_date
  payload_messageIds :: string
  isChunk :: bool

record characterPayload = payload +
  character :: string

record point =
  point_id :: string
  vector :: json
  point_payload :: characterPayload

text \<open>
  A search request and its answer. A result of the storage service has a score and the
  payload of a stored point: of a chunk (\<open>isChunk\<close>, with its \<open>speakers\<close>) or of a single
  turn of the legacy path (with its \<open>speaker\<close>). The answer is a rejected \<open>fetch\<close> or a
  response with its \<open>ok\<close> flag and \<open>data.result\<close> (\<open>None\<close> when it is missing or the
  body does not parse).
\<close>

datatype condition = TimestampLt jsnum | CharacterMatch string

record searchPayload =
  search_vector :: json
  limit :: nat
  score_threshold :: real
  with_payload :: bool
  filter_must :: "condition list option"

record memory =
  score :: real
  memory_isChunk :: bool
  memory_speakers :: string
  memory_speaker :: string
  memory_text :: string

datatype search_response = SearchUnreachable | SearchResponse bool "memory list option"

text \<open>
  The outside world as one call sees it: the host global, the answers of the embedding
  provider and of the storage service (\<open>None\<close> when \<open>fetch\<close> rejects, otherwise the
  \<open>ok\<close> flag of the response), and the digits \<open>(Math.random() * 16) | 0\<close> in the order
  they are drawn. A scroll request either fails (\<open>fetch\<close> rejects, the response is
  not \<open>ok\<close> or its body does not parse) or is answered from the stored points.
\<close>

record world =
  extension_settings :: ext_global
  fetch_embedding :: "request \<Rightarrow> http"
  random :: "nat \<Rightarrow> nat"
  get_collection :: "string \<Rightarrow> bool option"
  put_collection :: "string \<Rightarrow> bool option"
  put_points :: "string \<Rightarrow> point \<Rightarrow> bool option"
  scroll_fails :: "string \<Rightarrow> string list \<Rightarrow> bool"
  search_points :: "string \<Rightarrow> searchPayload \<Rightarrow> search_response"

definition hex_digit :: "nat \<Rightarrow> char" where
  "hex_digit v = ''0123456789abcdef'' ! (v mod 16)"

text \<open>
  \<open>generateUUID\<close>: every \<open>x\<close> and \<open>y\<close> of the template is replaced, from left to
  right, by a digit made from the next random draw.
\<close>

fun uuid_replace :: "(nat \<Rightarrow> nat) \<Rightarrow> nat \<Rightarrow> string \<Rightarrow> string" where
  "uuid_replace rnd k [] = []"
| "uuid_replace rnd k (c # cs) =
     (if c = CHR ''x'' then hex_digit (rnd k mod 16) # uuid_replace rnd (Suc k) cs
      else if c = CHR ''y'' then hex_digit ((rnd k mod 16) mod 4 + 8) # uuid_replace rnd (Suc k) cs
      else c # uuid_replace rnd k cs)"

definition generateUUID :: "(nat \<Rightarrow> nat) \<Rightarrow> string" where
  "generateUUID rnd = uuid_replace rnd 0 ''xxxxxxxx-xxxx-4xxx-yxxx-xxxxxxxxxxxx''"

definition collectionExists :: "world \<Rightarrow> string \<Rightarrow> bool" where
  "collectionExists w c = (case get_collection w c of Some ok \<Rightarrow> ok | None \<Rightarrow> False)"

definition createCollection :: "world \<Rightarrow> string \<Rightarrow> bool" where
  "createCollection w c = (case put_collection w c of Some ok \<Rightarrow> ok | None \<Rightarrow> False)"

definition ensureCollection :: "world \<Rightarrow> settings \<Rightarrow> string \<Rightarrow> bool" where
  "ensureCollection w st cname =
     (let c = getCollectionName st cname in
      if \<not> collectionExists w c then createCollection w c else True)"

definition base_payload :: "chunk \<Rightarrow> payload" where
  "base_payload c =
     \<lparr> payload_text = chunk_text c,
       payload_speakers = join '', '' (speakers c),
       payload_messageCount = messageCount c,
       payload_timestamp = chunk_timestamp c,
       payload_messageIds = join '','' (messageIds c),
       isChunk = True \<rparr>"

text \<open>\<open>{ ...payload, character: characterName }\<close>.\<close>

definition with_character :: "payload \<Rightarrow> string \<Rightarrow> characterPayload" where
  "with_character p cname =
     \<lparr> payload_text = payload_text p,
       payload_speakers = payload_speakers p,
       payload_messageCount = payload_messageCount p,
       payload_timestamp = payload_timestamp p,
       payload_messageIds = payload_messageIds p,
       isChunk = isChunk p,
       character = cname \<rparr>"

text \<open>
  One callback of \<open>participants.map\<close>: the request it sends, if it gets that far, and the
  value its promise settles with (\<open>None\<close> when \<open>fetch\<close> rejects).
\<close>

definition save_to_participant ::
  "world \<Rightarrow> settings \<Rightarrow> string \<Rightarrow> json \<Rightarrow> payload \<Rightarrow> string
     \<Rightarrow> (string \<times> point) option \<times> bool option" where
  "save_to_participant w st pointId embedding p cname =
     (let c = getCollectionName st cname in
      if \<not> ensureCollection w st cname then (None, Some False)
      else
        let pt = \<lparr> point_id = pointId, vector = embedding,
                    point_payload = with_character p cname \<rparr>
        in (Some (c, pt), put_points w c pt))"

text \<open>
  \<open>saveChunkToQdrant\<close> returns its boolean with the requests it sent and, of those, the
  ones the storage service answered with \<open>ok\<close>. Everything after the first guard is
  inside \<open>try\<close>: a rejected \<open>generateEmbedding\<close> or a rejected callback (which rejects
  \<open>Promise.all\<close>) ends in the \<open>catch\<close>, which returns \<open>false\<close>.
\<close>

record save_result =
  save_ok :: bool
  sent :: "(string \<times> point) list"
  acknowledged :: "(string \<times> point) list"

definition saveChunkToQdrant ::
  "world \<Rightarrow> settings \<Rightarrow> chunk \<Rightarrow> string list \<Rightarrow> save_result" where
  "saveChunkToQdrant w st c participants =
     (if participants = [] then \<lparr> save_ok = False, sent = [], acknowledged = [] \<rparr>
      else case generateEmbedding (extension_settings w) (fetch_embedding w) (chunk_text c) of
        Rejected \<Rightarrow> \<lparr> save_ok = False, sent = [], acknowledged = [] \<rparr>
      | Resolved None \<Rightarrow> \<lparr> save_ok = False, sent = [], acknowledged = [] \<rparr>
      | Resolved (Some embedding) \<Rightarrow>
          if \<not> truthy embedding then \<lparr> save_ok = False, sent = [], acknowledged = [] \<rparr>
          else
            let pointId = generateUUID (random w);
                results = map (save_to_participant w st pointId embedding (base_payload c))
                            participants;
                requests = List.map_filter fst results;
                oks = map snd results
            in \<lparr> save_ok = (if None \<in> set oks then False
                             else length (filter (\<lambda>r. r = Some True) oks) > 0),
                 sent = requests,
                 acknowledged = filter (\<lambda>(cl, pt). put_points w cl pt = Some True) requests \<rparr>)"

section \<open>Buffering state machine\<close>

text \<open>
  The module variables \<open>messageBuffer\<close>, \<open>lastMessageTime\<close> and \<open>chunkTimer\<close>. The
  timer is the delay of the pending timeout, \<open>None\<close> when no timeout is pending (none
  was set, it was cleared, or it has fired).
\<close>

record state =
  messageBuffer :: "turn list"
  lastMessageTime :: real
  chunkTimer :: "nat option"

text \<open>
  \<open>processMessageBuffer\<close> is an \<open>async\<close> function: it runs up to its \<open>await\<close> when
  it is called, and the rest runs when the awaited \<open>saveChunkToQdrant\<close> has settled;
  other handlers may run in between. \<open>processMessageBuffer_start\<close> is the first part;
  it says whether the function returned at once or is waiting, with the chunk and the
  participants it passed on. \<open>processMessageBuffer_resume\<close> is the second part,
  applied to the state as it is by then.
\<close>

datatype flush = NoFlush | Dropped | InFlight chunk "string list"

definition processMessageBuffer_start ::
  "host \<Rightarrow> real \<Rightarrow> hostContext \<Rightarrow> state \<Rightarrow> state \<times> flush" where
  "processMessageBuffer_start h now ctx s =
     (if messageBuffer s = [] then (s, NoFlush)
      else case createChunkFromBuffer h now (messageBuffer s) of
        None \<Rightarrow> (s, NoFlush)
      | Some c \<Rightarrow>
          let participants = getChatParticipants ctx in
          if participants = [] then (s\<lparr>messageBuffer := []\<rparr>, Dropped)
          else (s, InFlight c participants))"

definition processMessageBuffer_resume :: "save_result \<Rightarrow> state \<Rightarrow> state" where
  "processMessageBuffer_resume r s = s\<lparr>messageBuffer := []\<rparr>"

text \<open>A flush that no other handler interrupts.\<close>

definition processMessageBuffer ::
  "world \<Rightarrow> host \<Rightarrow> real \<Rightarrow> hostContext \<Rightarrow> settings \<Rightarrow> state \<Rightarrow> state" where
  "processMessageBuffer w h now ctx st s =
     (case processMessageBuffer_start h now ctx s of
        (s', InFlight c participants) \<Rightarrow>
          processMessageBuffer_resume (saveChunkToQdrant w st c participants) s'
      | (s', _) \<Rightarrow> s')"

definition getEffectiveEmbeddingApiKey :: "settings \<Rightarrow> string" where
  "getEffectiveEmbeddingApiKey currentSettings =
     or_else (apiKey currentSettings) (or_else (openaiApiKey currentSettings) [])"

definition providerRequiresApiKey :: "string \<Rightarrow> bool" where
  "providerRequiresApiKey p =
     (let normalized = toLowerCase (or_else p []) in
      normalized = ''openai'' \<or> normalized = ''openrouter'' \<or> normalized = ''huggingface'')"

text \<open>
  \<open>bufferMessage(text, characterName, isUser, messageId)\<close>, its four arguments given as
  the buffer entry they make. What it returns with the state is the flush it has
  started, if any.
\<close>

definition bufferSize_of :: "turn list \<Rightarrow> nat" where
  "bufferSize_of b =
     foldl (\<lambda>bufferSize msg. bufferSize + (length (turn_text msg) + length (characterName msg) + 4))
       0 b"

definition bufferMessage ::
  "host \<Rightarrow> real \<Rightarrow> hostContext \<Rightarrow> settings \<Rightarrow> state \<Rightarrow> turn \<Rightarrow> state \<times> flush" where
  "bufferMessage h now ctx st s t =
     (if \<not> autoSaveMemories st then (s, NoFlush)
      else if providerRequiresApiKey (provider st) \<and> getEffectiveEmbeddingApiKey st = []
        then (s, NoFlush)
      else if length (turn_text t) < minMessageLength st then (s, NoFlush)
      else if isUser t \<and> \<not> saveUserMessages st then (s, NoFlush)
      else if \<not> isUser t \<and> \<not> saveCharacterMessages st then (s, NoFlush)
      else
        let s1 = s\<lparr>messageBuffer := messageBuffer s @ [t], lastMessageTime := now\<rparr>;
            bufferSize = bufferSize_of (messageBuffer s1);
            s2 = s1\<lparr>chunkTimer := None\<rparr>
        in if bufferSize \<ge> chunkMaxSize st then processMessageBuffer_start h now ctx s2
           else if bufferSize \<ge> chunkMinSize st then (s2\<lparr>chunkTimer := Some 5000\<rparr>, NoFlush)
           else (s2\<lparr>chunkTimer := Some (chunkTimeout st)\<rparr>, NoFlush))"

text \<open>
  \<open>bufferMessage\<close> of the earlier revision: its second guard is
  \<open>if (!settings.openaiApiKey) return\<close>; the rest is the same.
\<close>

definition bufferMessage_earlier ::
  "host \<Rightarrow> real \<Rightarrow> hostContext \<Rightarrow> settings \<Rightarrow> state \<Rightarrow> turn \<Rightarrow> state \<times> flush" where
  "bufferMessage_earlier h now ctx st s t =
     (if \<not> autoSaveMemories st then (s, NoFlush)
      else if openaiApiKey st = [] then (s, NoFlush)
      else if length (turn_text t) < minMessageLength st then (s, NoFlush)
      else if isUser t \<and> \<not> saveUserMessages st then (s, NoFlush)
      else if \<not> isUser t \<and> \<not> saveCharacterMessages st then (s, NoFlush)
      else
        let s1 = s\<lparr>messageBuffer := messageBuffer s @ [t], lastMessageTime := now\<rparr>;
            bufferSize = bufferSize_of (messageBuffer s1);
            s2 = s1\<lparr>chunkTimer := None\<rparr>
        in if bufferSize \<ge> chunkMaxSize st then processMessageBuffer_start h now ctx s2
           else if bufferSize \<ge> chunkMinSize st then (s2\<lparr>chunkTimer := Some 5000\<rparr>, NoFlush)
           else (s2\<lparr>chunkTimer := Some (chunkTimeout st)\<rparr>, NoFlush))"

text \<open>The pending timeout fires: its callback calls \<open>processMessageBuffer\<close>.\<close>

definition timer_fires ::
  "host \<Rightarrow> real \<Rightarrow> hostContext \<Rightarrow> state \<Rightarrow> state \<times> flush" where
  "timer_fires h now ctx s = processMessageBuffer_start h now ctx (s\<lparr>chunkTimer := None\<rparr>)"

section \<open>Retrieval engine\<close>

definition positive :: "jsnum \<Rightarrow> bool" where
  "positive x = (case x of Num r \<Rightarrow> r > 0 | NaN \<Rightarrow> False)"

text \<open>
  The recency cutoff that \<open>searchMemories\<close> computes into \<open>timestampThreshold\<close> and the
  list it builds in \<open>filterConditions\<close>.
\<close>

definition timestampThreshold :: "host \<Rightarrow> settings \<Rightarrow> message list \<Rightarrow> jsnum" where
  "timestampThreshold h st conversationMessages =
     (if retainRecentMessages st > 0
         \<and> length conversationMessages > retainRecentMessages st
      then
        let retainIndex = length conversationMessages - retainRecentMessages st in
        case normalizeSendDate h (send_date (conversationMessages ! retainIndex)) of
          Some normalizedTimestamp \<Rightarrow> normalizedTimestamp
        | None \<Rightarrow> Num 0
      else Num 0)"

definition filterConditions :: "settings \<Rightarrow> jsnum \<Rightarrow> string \<Rightarrow> condition list" where
  "filterConditions st threshold cname =
     (if positive threshold then [TimestampLt threshold] else [])
     @ (if \<not> usePerCharacterCollections st then [CharacterMatch cname] else [])"

record search_outcome =
  chat_after :: "message list"
  request_sent :: "searchPayload option"
  memories :: "memory list"

text \<open>
  \<open>searchMemories\<close>: with the memories it returns, the model gives the context's chat
  array as the call leaves it and the search request, if one was sent.
\<close>

definition searchMemories ::
  "world \<Rightarrow> host \<Rightarrow> settings \<Rightarrow> hostContext \<Rightarrow> string \<Rightarrow> string \<Rightarrow> search_outcome" where
  "searchMemories w h st ctx query cname =
     (let nothing = \<lparr> chat_after = chat ctx, request_sent = None, memories = [] \<rparr> in
      if \<not> enabled st then nothing
      else if \<not> ensureCollection w st cname then nothing
      else case generateEmbedding (extension_settings w) (fetch_embedding w) query of
        Rejected \<Rightarrow> nothing
      | Resolved None \<Rightarrow> nothing
      | Resolved (Some embedding) \<Rightarrow>
          if \<not> truthy embedding then nothing
          else
            let c = removeExistingMemoryEntries (chat ctx);
                conversationMessages = getConversationMessages h c;
                threshold = timestampThreshold h st conversationMessages;
                conds = filterConditions st threshold cname;
                p = \<lparr> search_vector = embedding, limit = memoryLimit st,
                      score_threshold = scoreThreshold st, with_payload = True,
                      filter_must = (if length conds > 0 then Some conds else None) \<rparr>;
                found = (case search_points w (getCollectionName st cname) p of
                           SearchUnreachable \<Rightarrow> []
                         | SearchResponse ok res \<Rightarrow>
                             if \<not> ok then []
                             else (case res of Some ms \<Rightarrow> ms | None \<Rightarrow> []))
            in \<lparr> chat_after = c, request_sent = Some p, memories = found \<rparr>)"

section \<open>Injection formatter and interceptor\<close>





section \<open>Bulk reindexer\<close>

text \<open>The decimal digits of an array index, as a template literal prints it.\<close>

fun show_nat :: "nat \<Rightarrow> string" where
  "show_nat n =
     (if n < 10 then [''0123456789'' ! n]
      else show_nat (n div 10) @ [''0123456789'' ! (n mod 10)])"

text \<open>
  \<open>createChunksFromChat\<close>: the loop body, applied to a message with its position in
  \<open>messages\<close> (which is what \<open>messages.indexOf(msg)\<close> finds, every entry being an object
  of its own), works on \<open>chunks\<close>, \<open>currentChunk\<close> and \<open>currentSize\<close>. The clock
  reading \<open>now\<close> stands for the calls of \<open>Date.now()\<close> made while one file is chunked.
\<close>

definition chat_step ::
  "host \<Rightarrow> real \<Rightarrow> settings \<Rightarrow> string
     \<Rightarrow> chunk list \<times> messageObj list \<times> nat \<Rightarrow> nat \<times> message
     \<Rightarrow> chunk list \<times> messageObj list \<times> nat" where
  "chat_step h now st cname acc im =
     (case acc of (chunks, currentChunk, currentSize) \<Rightarrow>
      case im of (i, msg) \<Rightarrow>
        if is_system msg then acc
        else
          let txt = trim (mes msg) in
          if txt = [] \<or> length txt < minMessageLength st then acc
          else if is_user msg \<and> \<not> saveUserMessages st then acc
          else if \<not> is_user msg \<and> \<not> saveCharacterMessages st then acc
          else
            let messageObj =
                  \<lparr> turn_text = txt, characterName = cname, isUser = is_user msg,
                    messageId = cname @ ''_'' @ js_String h (send_date msg) @ ''_'' @ show_nat i,
                    timestamp = (if truthy_date (send_date msg) then send_date msg
                                 else Number (Num now)) \<rparr>;
                messageSize = length txt + length cname + 4;
                closed = (currentSize + messageSize > chunkMaxSize st \<and> length currentChunk > 0);
                chunks1 = (if closed then chunks @ [createChunkFromMessages h now currentChunk]
                           else chunks);
                currentChunk1 = (if closed then [] else currentChunk) @ [messageObj];
                currentSize1 = (if closed then 0 else currentSize) + messageSize
            in if currentSize1 \<ge> chunkMinSize st \<and> length currentChunk1 \<ge> 3
               then (chunks1 @ [createChunkFromMessages h now currentChunk1], [], 0)
               else (chunks1, currentChunk1, currentSize1))"

definition createChunksFromChat ::
  "host \<Rightarrow> real \<Rightarrow> settings \<Rightarrow> message list \<Rightarrow> string \<Rightarrow> chunk list" where
  "createChunksFromChat h now st messages cname =
     (case foldl (chat_step h now st cname) ([], [], 0) (zip [0..<length messages] messages) of
        (chunks, currentChunk, currentSize) \<Rightarrow>
          if length currentChunk > 0 then chunks @ [createChunkFromMessages h now currentChunk]
          else chunks)"

text \<open>
  The storage service is outside the repository. The model keeps every point whose
  upsert the service answered with \<open>ok\<close>, under the namespace the request named, and
  answers the scroll request of \<open>chunkExists\<close> (a \<open>should\<close> filter with one text match
  per identifier on the \<open>messageIds\<close> member) from the points kept: it finds a point
  of the namespace whose \<open>messageIds\<close> member matches one of the identifiers. How an
  identifier is matched in the stored member (the joined string \<open>saveChunkToQdrant\<close>
  writes) is the service's text match, the parameter \<open>text_match member id\<close>.
\<close>

definition stored_match ::
  "(string \<Rightarrow> string \<Rightarrow> bool) \<Rightarrow> (string \<times> point) list \<Rightarrow> string \<Rightarrow> string list \<Rightarrow> bool" where
  "stored_match text_match store cl ids =
     list_ex (\<lambda>(c, pt). c = cl
                \<and> list_ex (\<lambda>i. text_match (payload_messageIds (point_payload pt)) i) ids) store"

definition chunkExists ::
  "world \<Rightarrow> (string \<Rightarrow> string \<Rightarrow> bool) \<Rightarrow> (string \<times> point) list
     \<Rightarrow> string \<Rightarrow> string list \<Rightarrow> bool" where
  "chunkExists w text_match store cl ids =
     (if scroll_fails w cl ids then False else stored_match text_match store cl ids)"

text \<open>
  What \<open>indexCharacterChats\<close> gets from outside: the file names \<open>getCharacterChats\<close>
  returns, the messages \<open>loadChatFile\<close> returns for each (\<open>None\<close> for \<open>null\<close>), the world
  as the loop sees it while it handles its n-th chunk, whether the Cancel button has
  been clicked by the n-th time the loop reads \<open>cancelled\<close>, and the clock.
\<close>

record index_env =
  chatFiles :: "string list"
  loadChatFile :: "string \<Rightarrow> message list option"
  world_at :: "nat \<Rightarrow> world"
  clicked :: "nat \<Rightarrow> bool"
  clock :: real
  text_match :: "string \<Rightarrow> string \<Rightarrow> bool"

text \<open>
  The counters of \<open>indexCharacterChats\<close> with the stored points, the \<open>cancelled\<close> flag,
  and how many times the flag has been read and how many chunks have been handled.
\<close>

record progress =
  store :: "(string \<times> point) list"
  totalChunks :: nat
  savedChunks :: nat
  skippedChunks :: nat
  cancelled :: bool
  reads :: nat
  handled :: nat

definition read_cancelled :: "index_env \<Rightarrow> progress \<Rightarrow> progress" where
  "read_cancelled env s =
     s\<lparr>cancelled := cancelled s \<or> clicked env (reads s), reads := Suc (reads s)\<rparr>"

fun chunks_loop ::
  "index_env \<Rightarrow> settings \<Rightarrow> string \<Rightarrow> chunk list \<Rightarrow> progress \<Rightarrow> progress" where
  "chunks_loop env st cname [] s = s"
| "chunks_loop env st cname (c # cs) s =
     (let s1 = read_cancelled env s in
      if cancelled s1 then s1
      else
        let w = world_at env (handled s1);
            s2 = s1\<lparr>handled := Suc (handled s1)\<rparr>
        in if chunkExists w (text_match env) (store s2) (getCollectionName st cname) (messageIds c)
           then chunks_loop env st cname cs (s2\<lparr>skippedChunks := Suc (skippedChunks s2)\<rparr>)
           else
             let r = saveChunkToQdrant w st c [cname] in
             chunks_loop env st cname cs
               (s2\<lparr>store := store s2 @ acknowledged r,
                    savedChunks := (if save_ok r then Suc (savedChunks s2) else savedChunks s2)\<rparr>))"

fun files_loop ::
  "host \<Rightarrow> index_env \<Rightarrow> settings \<Rightarrow> string \<Rightarrow> string list \<Rightarrow> progress \<Rightarrow> progress" where
  "files_loop h env st cname [] s = s"
| "files_loop h env st cname (chatFile # fs) s =
     (let s1 = read_cancelled env s in
      if cancelled s1 then s1
      else case loadChatFile env chatFile of
        None \<Rightarrow> files_loop h env st cname fs s1
      | Some chatData \<Rightarrow>
          let chunks = createChunksFromChat h (clock env) st chatData cname;
              s2 = s1\<lparr>totalChunks := totalChunks s1 + length chunks\<rparr>
          in files_loop h env st cname fs (chunks_loop env st cname chunks s2))"

text \<open>
  \<open>indexCharacterChats\<close>: \<open>None\<close> when it returns before the loop (no character, no
  API key, no chat file), otherwise the counters at the end.
\<close>

definition indexCharacterChats ::
  "host \<Rightarrow> settings \<Rightarrow> hostContext \<Rightarrow> index_env \<Rightarrow> (string \<times> point) list \<Rightarrow> progress option" where
  "indexCharacterChats h st ctx env store0 =
     (if name2 ctx = [] then None
      else if providerRequiresApiKey (provider st) \<and> getEffectiveEmbeddingApiKey st = []
        then None
      else if length (chatFiles env) = 0 then None
      else Some (files_loop h env st (name2 ctx) (chatFiles env)
                   \<lparr> store = store0, totalChunks = 0, savedChunks = 0, skippedChunks = 0,
                     cancelled = False, reads = 0, handled = 0 \<rparr>))"

text \<open>
  For the proofs about the reindexer: what the loop of \<open>createChunksFromChat\<close> keeps of
  its state when only the member identifiers matter, the chunks closed so far all
  having members, the chunks of all the files of a run, and a text match that finds
  every identifier in the joined string made from it.
\<close>

definition ids_view ::
  "chunk list \<times> messageObj list \<times> nat \<Rightarrow> string list list \<times> string list \<times> nat" where
  "ids_view acc =
     (case acc of (chunks, cur, sz) \<Rightarrow> (map messageIds chunks, map messageId cur, sz))"

definition nonempty_ids :: "chunk list \<times> messageObj list \<times> nat \<Rightarrow> bool" where
  "nonempty_ids acc =
     (case acc of (chunks, cur, sz) \<Rightarrow> list_all (\<lambda>c. messageIds c \<noteq> []) chunks)"

definition all_chunks ::
  "host \<Rightarrow> index_env \<Rightarrow> settings \<Rightarrow> string \<Rightarrow> string list \<Rightarrow> chunk list" where
  "all_chunks h env st n fs =
     concat (map (\<lambda>f. case loadChatFile env f of
                         None \<Rightarrow> []
                       | Some chatData \<Rightarrow> createChunksFromChat h (clock env) st chatData n) fs)"

definition faithful :: "(string \<Rightarrow> string \<Rightarrow> bool) \<Rightarrow> bool" where
  "faithful tm = (\<forall>ids i. i \<in> set ids \<longrightarrow> tm (join '','' ids) i)"

text \<open>A text match that looks for the identifier as a substring of the member.\<close>

fun is_prefix :: "string \<Rightarrow> string \<Rightarrow> bool" where
  "is_prefix [] s = True"
| "is_prefix (p # ps) [] = False"
| "is_prefix (p # ps) (c # cs) = (p = c \<and> is_prefix ps cs)"

fun contains :: "string \<Rightarrow> string \<Rightarrow> bool" where
  "contains [] p = (p = [])"
| "contains (c # cs) p = (is_prefix p (c # cs) \<or> contains cs p)"

section \<open>Concrete data for the examples\<close>

definition example_host :: host where
  "example_host =
     \<lparr> js_Number = (\<lambda>s. if s = ''1700000000000'' then Num 1700000000000 else NaN),
       Date_parse = (\<lambda>s. if s = ''2024-01-01T00:00:00.000Z'' then Num 1704067200000 else NaN),
       js_String = (\<lambda>d. case d of String s \<Rightarrow> s | _ \<Rightarrow> ''undefined''),
       isoDate = (\<lambda>d. case d of Number (Num r) \<Rightarrow> Some ''2026-11-02'' | _ \<Rightarrow> None),
       toFixed0 = (\<lambda>r. ''87'') \<rparr>"

definition example_settings :: settings where
  "example_settings = defaultSettings\<lparr>apiKey := ''sk-test''\<rparr>"

definition example_context :: hostContext where
  "example_context = \<lparr> name2 = ''Alice'', characters = [''Alice''], chat = [] \<rparr>"

definition turn_hello :: turn where
  "turn_hello = \<lparr> turn_text = ''hello there'', characterName = ''Alice'', isUser = True,
                    messageId = ''Alice_1_1'' \<rparr>"

definition turn_later :: turn where
  "turn_later = \<lparr> turn_text = ''one more thing'', characterName = ''Alice'', isUser = True,
                    messageId = ''Alice_2_2'' \<rparr>"


definition state1 :: state where
  "state1 = \<lparr> messageBuffer = [turn_hello], lastMessageTime = 1000, chunkTimer = Some 30000 \<rparr>"

definition chunk_hello :: chunk where
  "chunk_hello = \<lparr> chunk_text = ''[2026-11-02]'' @ NL @ ''You: hello there'',
                     speakers = [''You''], messageIds = [''Alice_1_1''], messageCount = 1,
                     chunk_timestamp = Number (Num 2000) \<rparr>"

definition hf_cfg :: embed_cfg where
  "hf_cfg = \<lparr> cfg_provider = ''huggingface'', cfg_apiKey = ''hf_key'', cfg_openaiApiKey = [],
              cfg_embeddingModel = ''sentence-transformers/all-MiniLM-L6-v2'', cfg_baseUrl = [] \<rparr>"

definition hf_error_body :: json where
  "hf_error_body = JObj [(''error'', JStr ''Model is loading'')]"

definition openai_cfg :: embed_cfg where
  "openai_cfg = \<lparr> cfg_provider = ''openai'', cfg_apiKey = ''sk-test'', cfg_openaiApiKey = [],
                  cfg_embeddingModel = [], cfg_baseUrl = [] \<rparr>"

definition embedding_body :: json where
  "embedding_body = JObj [(''data'', JArr [JObj [(''embedding'', JArr [JNum 1, JNum 2])]])]"

text \<open>A world where everything answers, and one where nothing can be embedded or written.\<close>

definition world_up :: world where
  "world_up =
     \<lparr> extension_settings = ExtensionSettings (Some openai_cfg),
       fetch_embedding = (\<lambda>r. Response True (Some embedding_body)),
       random = (\<lambda>k. k),
       get_collection = (\<lambda>c. Some True),
       put_collection = (\<lambda>c. Some True),
       put_points = (\<lambda>c p. Some True),
       scroll_fails = (\<lambda>c ids. False),
       search_points = (\<lambda>c p. SearchResponse True (Some [])) \<rparr>"

definition world_down :: world where
  "world_down =
     \<lparr> extension_settings = Undeclared,
       fetch_embedding = (\<lambda>r. NetworkError),
       random = (\<lambda>k. k),
       get_collection = (\<lambda>c. Some True),
       put_collection = (\<lambda>c. Some True),
       put_points = (\<lambda>c p. Some False),
       scroll_fails = (\<lambda>c ids. False),
       search_points = (\<lambda>c p. SearchUnreachable) \<rparr>"

definition message_at :: "real \<Rightarrow> message" where
  "message_at t = \<lparr> name = ''Alice'', is_user = False, is_system = False, mes = ''and then?'',
                    send_date = Number (Num t), qdrantMemory = False \<rparr>"


definition old_memory :: message where
  "old_memory = \<lparr> name = ''System'', is_user = False, is_system = True,
                   mes = ''[Past chat memories]'', send_date = Number (Num 500),
                   qdrantMemory = True \<rparr>"

text \<open>Ten live turns with a turn injected earlier among them.\<close>

definition chat10 :: "message list" where
  "chat10 = [message_at 1000, message_at 2000, message_at 3000, message_at 4000,
             message_at 5000, old_memory, message_at 6000, message_at 7000, message_at 8000,
             message_at 9000, message_at 10000]"

definition conversation10 :: "message list" where
  "conversation10 = [message_at 1000, message_at 2000, message_at 3000, message_at 4000,
     message_at 5000, message_at 6000, message_at 7000, message_at 8000, message_at 9000,
     message_at 10000]"

definition context10 :: hostContext where
  "context10 = \<lparr> name2 = ''Alice'', characters = [''Alice''], chat = chat10 \<rparr>"

definition payload10 :: searchPayload where
  "payload10 = \<lparr> search_vector = JArr [JNum 1, JNum 2], limit = 5, score_threshold = 0.3,
                  with_payload = True, filter_must = Some [TimestampLt (Num 6000)] \<rparr>"




text \<open>
  A transcript of one message, twice under two file names (a chat and a copy of it),
  and once alone with the embedding provider down or up.
\<close>

definition lake_message :: message where
  "lake_message = \<lparr> name = ''Alice'', is_user = False, is_system = False,
                     mes = ''A long walk by the lake'',
                     send_date = String ''2024-01-01T00:00:00.000Z'', qdrantMemory = False \<rparr>"

definition lake_chunk :: chunk where
  "lake_chunk = \<lparr> chunk_text = ''Alice: A long walk by the lake'', speakers = [''Alice''],
                   messageIds = [''Alice_2024-01-01T00:00:00.000Z_0''], messageCount = 1,
                   chunk_timestamp = Number (Num 5000) \<rparr>"

definition lake_point :: point where
  "lake_point = \<lparr> point_id = ''01234567-89ab-4cde-b012-3456789abcde'',
                   vector = JArr [JNum 1, JNum 2],
                   point_payload = \<lparr> payload_text = ''Alice: A long walk by the lake'',
                     payload_speakers = ''Alice'', payload_messageCount = 1,
                     payload_timestamp = Number (Num 5000),
                     payload_messageIds = ''Alice_2024-01-01T00:00:00.000Z_0'',
                     isChunk = True, character = ''Alice'' \<rparr> \<rparr>"

definition env_twins :: index_env where
  "env_twins = \<lparr> chatFiles = [''a.jsonl'', ''b.jsonl''],
                  loadChatFile = (\<lambda>f. Some [lake_message]),
                  world_at = (\<lambda>k. world_up), clicked = (\<lambda>k. False), clock = 5000,
                  text_match = contains \<rparr>"

definition env_single_down :: index_env where
  "env_single_down = \<lparr> chatFiles = [''a.jsonl''],
                  loadChatFile = (\<lambda>f. Some [lake_message]),
                  world_at = (\<lambda>k. world_down), clicked = (\<lambda>k. False), clock = 5000,
                  text_match = contains \<rparr>"

definition env_single_up :: index_env where
  "env_single_up = env_single_down\<lparr>world_at := (\<lambda>k. world_up)\<rparr>"

definition twins_first :: progress where
  "twins_first = \<lparr> store = [(''mem_alice'', lake_point)], totalChunks = 2, savedChunks = 1,
                    skippedChunks = 1, cancelled = False, reads = 4, handled = 2 \<rparr>"

definition twins_second :: progress where
  "twins_second = \<lparr> store = [(''mem_alice'', lake_point)], totalChunks = 2, savedChunks = 0,
                    skippedChunks = 2, cancelled = False, reads = 4, handled = 2 \<rparr>"

definition single_failed :: progress where
  "single_failed = \<lparr> store = [], totalChunks = 1, savedChunks = 0,
                    skippedChunks = 0, cancelled = False, reads = 2, handled = 1 \<rparr>"

definition single_saved :: progress where
  "single_saved = \<lparr> store = [(''mem_alice'', lake_point)], totalChunks = 1, savedChunks = 1,
                    skippedChunks = 0, cancelled = False, reads = 2, handled = 1 \<rparr>"







section \<open>Properties of the temporal normalizer\<close>



section \<open>Properties of the embedding adapter\<close>

text \<open>
  Claim C2. The adapter is to give a numeric vector or the failure result, and an
  unparsable response shape is to give the failure result. With the provider
  \<open>huggingface\<close>, a response with status 200 whose body is the object
  \<open>{"error": "Model is loading"}\<close> is returned as the embedding: the result is neither
  \<open>null\<close> nor an array of numbers. The branch of the other providers tests the shape
  and returns \<open>null\<close>; this one does not.
\<close>

theorem generateEmbedding_huggingface_error_body:
  "generateEmbedding (ExtensionSettings (Some hf_cfg))
       (\<lambda>r. Response True (Some hf_error_body)) ''hello''
     = Resolved (Some hf_error_body)
   \<and> \<not> is_vector hf_error_body"
  by (simp add: generateEmbedding_def hf_cfg_def hf_error_body_def or_else_def
        extract_embedding_def)

lemma embedding_world_up:
  "generateEmbedding (extension_settings world_up) (fetch_embedding world_up) t
     = Resolved (Some (JArr [JNum 1, JNum 2]))"
  by (simp add: world_up_def generateEmbedding_def openai_cfg_def or_else_def
        extract_embedding_def embedding_body_def data0_embedding_def)

section \<open>Properties of the chunk builder's loops\<close>

lemma foldl_buffer_step:
  "foldl buffer_step (ct, sp, ids, n) b =
     (ct @ concat (map line_of b), foldl set_add sp (map speaker_of b),
      ids @ map messageId b, n + (\<Sum>m\<leftarrow>b. length (line_of m)))"
  by (induction b arbitrary: ct sp ids n) (simp_all add: buffer_step_def)

lemma foldl_messages_step:
  "foldl (messages_step h) (ct, sp, ids, oldest) b =
     (ct @ concat (map line_of b), foldl set_add sp (map speaker_of b),
      ids @ map messageId b,
      foldl (\<lambda>t m. if before_oldest h (timestamp m) t then Some (timestamp m) else t) oldest b)"
  by (induction b arbitrary: ct sp ids oldest) (simp_all add: messages_step_def)



lemma createChunkFromBuffer_None [simp]:
  "(createChunkFromBuffer h now b = None) = (b = [])"
  by (simp add: createChunkFromBuffer_def split: prod.splits)

lemma createChunkFromBuffer_Some:
  "b \<noteq> [] \<Longrightarrow> createChunkFromBuffer h now b =
     Some \<lparr> chunk_text = with_date_prefix h (Number (Num now)) (trim (concat (map line_of b))),
            speakers = foldl set_add [] (map speaker_of b),
            messageIds = map messageId b,
            messageCount = length b,
            chunk_timestamp = Number (Num now) \<rparr>"
  by (simp add: createChunkFromBuffer_def foldl_buffer_step)

section \<open>Properties of the buffering state machine\<close>



lemma timer_fires_state1:
  "timer_fires example_host 2000 example_context state1
     = (state1\<lparr>chunkTimer := None\<rparr>, InFlight chunk_hello [''Alice''])"
  by (simp add: timer_fires_def processMessageBuffer_start_def state1_def
        createChunkFromBuffer_Some example_context_def getChatParticipants_def chunk_hello_def
        turn_hello_def line_of_def speaker_of_def set_add_def with_date_prefix_def
        example_host_def trim_def is_space_def)

text \<open>
  Claim C1, as the code has it. A flush that reaches its network calls has built its
  chunk from the turns buffered at that moment, before it awaits anything, and has
  left the buffer as it was; the buffer is emptied when the save has settled.
\<close>

theorem flush_snapshot_then_clear_after_save:
  "processMessageBuffer_start h now ctx s = (s', InFlight c ps) \<Longrightarrow>
     s' = s \<and> messageBuffer s \<noteq> []
     \<and> createChunkFromBuffer h now (messageBuffer s) = Some c
     \<and> messageIds c = map messageId (messageBuffer s)
     \<and> messageCount c = length (messageBuffer s)
     \<and> ps = getChatParticipants ctx
     \<and> messageBuffer (processMessageBuffer_resume r s'') = []"
  by (auto simp: processMessageBuffer_start_def processMessageBuffer_resume_def Let_def
        createChunkFromBuffer_Some split: if_splits option.splits)

theorem flush_snapshot_then_clear_after_save_witness:
  "processMessageBuffer_start example_host 2000 example_context (state1\<lparr>chunkTimer := None\<rparr>)
     = (state1\<lparr>chunkTimer := None\<rparr>, InFlight chunk_hello [''Alice''])
   \<and> messageIds chunk_hello = map messageId (messageBuffer (state1\<lparr>chunkTimer := None\<rparr>))
   \<and> messageBuffer (processMessageBuffer_resume
         (saveChunkToQdrant world_up example_settings chunk_hello [''Alice'']) state1) = []"
proof -
  have started:
    "processMessageBuffer_start example_host 2000 example_context (state1\<lparr>chunkTimer := None\<rparr>)
       = (state1\<lparr>chunkTimer := None\<rparr>, InFlight chunk_hello [''Alice''])"
    using timer_fires_state1 by (simp add: timer_fires_def)
  from flush_snapshot_then_clear_after_save [OF started] started show ?thesis
    by simp
qed

text \<open>
  Claim C1 as the spec states it fails. The 30-second timer fires with one turn
  buffered: the flush builds its chunk and waits for the network with the buffer still
  holding that turn. A second turn arrives meanwhile and is appended. When the save
  has settled (it succeeds), the buffer is emptied: the second turn is in no chunk and
  no longer in the buffer, and the timer armed for it finds nothing to flush.
\<close>

theorem flush_loses_turn_appended_in_flight:
  "snd (timer_fires example_host 2000 example_context state1) = InFlight chunk_hello [''Alice'']
   \<and> messageBuffer (fst (timer_fires example_host 2000 example_context state1)) = [turn_hello]
   \<and> messageBuffer (fst (bufferMessage example_host 3000 example_context example_settings
         (fst (timer_fires example_host 2000 example_context state1)) turn_later))
       = [turn_hello, turn_later]
   \<and> save_ok (saveChunkToQdrant world_up example_settings chunk_hello [''Alice''])
   \<and> messageId turn_later \<notin> set (messageIds chunk_hello)
   \<and> messageBuffer (processMessageBuffer_resume
         (saveChunkToQdrant world_up example_settings chunk_hello [''Alice''])
         (fst (bufferMessage example_host 3000 example_context example_settings
            (fst (timer_fires example_host 2000 example_context state1)) turn_later))) = []
   \<and> snd (timer_fires example_host 33000 example_context
         (processMessageBuffer_resume
            (saveChunkToQdrant world_up example_settings chunk_hello [''Alice''])
            (fst (bufferMessage example_host 3000 example_context example_settings
               (fst (timer_fires example_host 2000 example_context state1)) turn_later))))
       = NoFlush"
proof -
  have accepted: "bufferMessage example_host 3000 example_context example_settings
                    (state1\<lparr>chunkTimer := None\<rparr>) turn_later
                  = (state1\<lparr>messageBuffer := [turn_hello, turn_later], lastMessageTime := 3000,
                            chunkTimer := Some 30000\<rparr>, NoFlush)"
    by (simp add: bufferMessage_def example_settings_def defaultSettings_def state1_def
          turn_hello_def turn_later_def providerRequiresApiKey_def
          getEffectiveEmbeddingApiKey_def or_else_def toLowerCase_def bufferSize_of_def Let_def)
  have saved: "save_ok (saveChunkToQdrant world_up example_settings chunk_hello [''Alice''])"
    by (simp add: saveChunkToQdrant_def embedding_world_up Let_def save_to_participant_def
          ensureCollection_def collectionExists_def) (simp add: world_up_def)
  have idle: "snd (timer_fires h now ctx (u\<lparr>messageBuffer := []\<rparr>)) = NoFlush" for h now ctx u
    by (simp add: timer_fires_def processMessageBuffer_start_def)
  show ?thesis
    using accepted saved
    by (simp add: timer_fires_state1 processMessageBuffer_resume_def idle)
       (simp add: state1_def chunk_hello_def turn_later_def)
qed

lemma no_write_succeeds:
  assumes "\<forall>cl pt. put_points w cl pt \<noteq> Some True"
  shows "\<not> save_ok (saveChunkToQdrant w st c ps)"
    and "acknowledged (saveChunkToQdrant w st c ps) = []"
proof -
  have none: "filter (\<lambda>r. r = Some True) (map snd (map (save_to_participant w st pid e p) ps)) = []"
    for pid e p
    using assms by (induction ps) (simp_all add: save_to_participant_def Let_def)
  show "\<not> save_ok (saveChunkToQdrant w st c ps)"
    using none by (simp add: saveChunkToQdrant_def Let_def split: promise.splits option.splits)
  show "acknowledged (saveChunkToQdrant w st c ps) = []"
    using assms
    by (simp add: saveChunkToQdrant_def Let_def split: promise.splits option.splits)
qed

lemma no_embedding:
  assumes "generateEmbedding (extension_settings w) (fetch_embedding w) (chunk_text c) = Rejected
           \<or> generateEmbedding (extension_settings w) (fetch_embedding w) (chunk_text c)
               = Resolved None"
  shows "\<not> save_ok (saveChunkToQdrant w st c ps)"
    and "sent (saveChunkToQdrant w st c ps) = []"
  using assms by (auto simp: saveChunkToQdrant_def)

text \<open>
  Claim C3. When a flush has run to its end the buffer is empty, whatever the embedding
  provider and the storage service answered: \<open>saveChunkToQdrant\<close> turns every failure
  into \<open>false\<close>, and the assignment after it is reached. This holds for a flush that
  nothing interrupts and for the second half of a flush resumed in any later state. It
  holds when the embedding fails (the save returns \<open>false\<close> and sends nothing) and
  when no write succeeds (the save returns \<open>false\<close> and nothing is stored): the
  chunk is gone and its turns are not buffered for another attempt.
\<close>

theorem flush_always_empties_buffer:
  "messageBuffer (processMessageBuffer w h now ctx st s) = []
   \<and> messageBuffer (processMessageBuffer_resume (saveChunkToQdrant w st c ps) s') = []
   \<and> (generateEmbedding (extension_settings w) (fetch_embedding w) (chunk_text c) = Rejected
        \<or> generateEmbedding (extension_settings w) (fetch_embedding w) (chunk_text c)
            = Resolved None
        \<longrightarrow> \<not> save_ok (saveChunkToQdrant w st c ps)
            \<and> sent (saveChunkToQdrant w st c ps) = [])
   \<and> ((\<forall>cl pt. put_points w cl pt \<noteq> Some True)
        \<longrightarrow> \<not> save_ok (saveChunkToQdrant w st c ps)
            \<and> acknowledged (saveChunkToQdrant w st c ps) = [])"
proof -
  have "messageBuffer (processMessageBuffer w h now ctx st s) = []"
    by (auto simp: processMessageBuffer_def processMessageBuffer_start_def
          processMessageBuffer_resume_def Let_def
          split: option.splits flush.splits prod.splits if_splits)
  moreover have "messageBuffer (processMessageBuffer_resume (saveChunkToQdrant w st c ps) s') = []"
    by (simp add: processMessageBuffer_resume_def)
  ultimately show ?thesis
    using no_embedding [of w c st ps] no_write_succeeds [of w st c ps] by blast
qed

theorem flush_always_empties_buffer_witness:
  "generateEmbedding (extension_settings world_down) (fetch_embedding world_down)
       (chunk_text chunk_hello) = Rejected
   \<and> \<not> save_ok (saveChunkToQdrant world_down example_settings chunk_hello [''Alice''])
   \<and> messageBuffer state1 \<noteq> []
   \<and> messageBuffer (processMessageBuffer world_down example_host 1000 example_context
                       example_settings state1) = []"
proof -
  have down: "generateEmbedding (extension_settings world_down) (fetch_embedding world_down)
                (chunk_text chunk_hello) = Rejected"
    by (simp add: world_down_def generateEmbedding_def)
  have full: "messageBuffer state1 \<noteq> []"
    by (simp add: state1_def)
  from flush_always_empties_buffer [of world_down example_host 1000 example_context
          example_settings state1 chunk_hello "[''Alice'']"] down full
  show ?thesis by simp
qed


text \<open>
  The earlier revision is the later one with the provider fixed to OpenAI and
  \<open>openaiApiKey\<close> as the only key, so the policy above is its policy too.
\<close>

lemma bufferMessage_earlier_is_openai:
  "bufferMessage_earlier h now ctx st s t
     = bufferMessage h now ctx (st\<lparr>provider := ''openai'', apiKey := []\<rparr>) s t"
  by (simp add: bufferMessage_earlier_def bufferMessage_def providerRequiresApiKey_def
        getEffectiveEmbeddingApiKey_def or_else_def toLowerCase_def Let_def)


section \<open>Properties of the storage writes\<close>


lemma ready_up: "ensureCollection world_up st n"
  by (simp add: ensureCollection_def collectionExists_def world_up_def)

lemma uuid_up: "generateUUID (random world_up) = ''01234567-89ab-4cde-b012-3456789abcde''"
  by (simp add: generateUUID_def world_up_def hex_digit_def)



section \<open>Properties of the retrieval engine\<close>

lemma removeFrom_filter:
  "i \<le> length c \<Longrightarrow>
     removeFrom i c = filter (\<lambda>m. \<not> isQdrantMemoryMessage m) (take i c) @ drop i c"
proof (induction i arbitrary: c)
  case 0
  then show ?case by simp
next
  case (Suc i)
  then have i: "i < length c" by simp
  show ?case
  proof (cases "isQdrantMemoryMessage (c ! i)")
    case True
    have "removeFrom (Suc i) c = removeFrom i (take i c @ drop (Suc i) c)"
      using True by simp
    also have "\<dots> = filter (\<lambda>m. \<not> isQdrantMemoryMessage m) (take i c) @ drop (Suc i) c"
      using i by (subst Suc.IH) (simp_all add: min_def)
    finally show ?thesis
      using True i by (simp add: take_Suc_conv_app_nth)
  next
    case False
    have "removeFrom (Suc i) c = removeFrom i c"
      using False by simp
    also have "\<dots> = filter (\<lambda>m. \<not> isQdrantMemoryMessage m) (take i c) @ drop i c"
      using i by (subst Suc.IH) simp_all
    finally show ?thesis
      using False i by (simp add: take_Suc_conv_app_nth Cons_nth_drop_Suc)
  qed
qed

lemma removeExistingMemoryEntries_filter:
  "removeExistingMemoryEntries c = filter (\<lambda>m. \<not> qdrantMemory m) c"
  by (simp add: removeExistingMemoryEntries_def removeFrom_filter isQdrantMemoryMessage_def)

lemma request_sent_Some:
  "request_sent (searchMemories w h st ctx q cname) = Some p \<Longrightarrow>
     filter_must p =
       (let conds = filterConditions st
                      (timestampThreshold h st
                         (getConversationMessages h (removeExistingMemoryEntries (chat ctx)))) cname
        in if conds = [] then None else Some conds)
     \<and> chat_after (searchMemories w h st ctx q cname) = removeExistingMemoryEntries (chat ctx)"
  by (auto simp: searchMemories_def Let_def split: if_splits promise.splits option.splits)

lemma conv10:
  "getConversationMessages example_host (removeExistingMemoryEntries chat10) = conversation10"
  by (simp add: removeExistingMemoryEntries_filter chat10_def getConversationMessages_def
        isQdrantMemoryMessage_def message_at_def old_memory_def conversation10_def)

lemma threshold10:
  "timestampThreshold example_host example_settings conversation10 = Num 6000"
  by (simp add: timestampThreshold_def conversation10_def example_settings_def
        defaultSettings_def message_at_def)

lemma sent10:
  "request_sent (searchMemories world_up example_host example_settings context10 ''q'' ''Alice'')
     = Some payload10"
  by (simp add: searchMemories_def ready_up embedding_world_up Let_def context10_def conv10
        threshold10 filterConditions_def payload10_def positive_def)
     (simp add: example_settings_def defaultSettings_def)

text \<open>
  Claim C6. When \<open>searchMemories\<close> sends its search request, the tagged turns are gone
  from the chat and \<open>conv\<close> is what is left of it with a timestamp that normalizes. If
  the retention setting is positive and \<open>conv\<close> is longer, the cutoff is the normalized
  timestamp of the turn that many from the end (with ten turns and a retention of five,
  the turn at index 5); otherwise it is 0. The request has the filter
  \<open>timestamp < cutoff\<close> exactly when the cutoff is greater than 0, and the filter that
  matches the character name exactly when per-character collections are off.
\<close>

theorem searchMemories_cutoff_and_filters:
  "request_sent (searchMemories w h st ctx q cname) = Some p \<Longrightarrow>
   conv = getConversationMessages h (removeExistingMemoryEntries (chat ctx)) \<Longrightarrow>
   cutoff = timestampThreshold h st conv \<Longrightarrow>
     chat_after (searchMemories w h st ctx q cname) = filter (\<lambda>m. \<not> qdrantMemory m) (chat ctx)
     \<and> conv = filter (\<lambda>m. \<not> qdrantMemory m \<and> normalizeSendDate h (send_date m) \<noteq> None) (chat ctx)
     \<and> (0 < retainRecentMessages st \<and> retainRecentMessages st < length conv \<longrightarrow>
          normalizeSendDate h (send_date (conv ! (length conv - retainRecentMessages st)))
            = Some cutoff)
     \<and> (retainRecentMessages st = 5 \<and> length conv = 10 \<longrightarrow>
          normalizeSendDate h (send_date (conv ! 5)) = Some cutoff)
     \<and> (\<not> (0 < retainRecentMessages st \<and> retainRecentMessages st < length conv) \<longrightarrow>
          cutoff = Num 0)
     \<and> (TimestampLt x \<in> set (case filter_must p of Some conds \<Rightarrow> conds | None \<Rightarrow> [])
          \<longleftrightarrow> x = cutoff \<and> positive cutoff)
     \<and> (CharacterMatch n \<in> set (case filter_must p of Some conds \<Rightarrow> conds | None \<Rightarrow> [])
          \<longleftrightarrow> n = cname \<and> \<not> usePerCharacterCollections st)"
proof -
  assume sent: "request_sent (searchMemories w h st ctx q cname) = Some p"
     and conv: "conv = getConversationMessages h (removeExistingMemoryEntries (chat ctx))"
     and cutoff: "cutoff = timestampThreshold h st conv"
  have conv_filter:
    "conv = filter (\<lambda>m. \<not> qdrantMemory m \<and> normalizeSendDate h (send_date m) \<noteq> None) (chat ctx)"
    by (simp add: conv getConversationMessages_def removeExistingMemoryEntries_filter
          isQdrantMemoryMessage_def) (metis (mono_tags, lifting) filter_cong)
  have resolvable: "normalizeSendDate h (send_date (conv ! i)) \<noteq> None" if "i < length conv" for i
  proof -
    from that have "conv ! i \<in> set conv" by simp
    then show ?thesis by (subst (asm) conv_filter) simp
  qed
  have at_boundary:
    "normalizeSendDate h (send_date (conv ! (length conv - retainRecentMessages st))) = Some cutoff"
    if "0 < retainRecentMessages st" "retainRecentMessages st < length conv"
  proof -
    from that have "length conv - retainRecentMessages st < length conv" by simp
    from resolvable [OF this] that show ?thesis
      by (auto simp: cutoff timestampThreshold_def Let_def)
  qed
  have ten: "normalizeSendDate h (send_date (conv ! 5)) = Some cutoff"
    if "retainRecentMessages st = 5" "length conv = 10"
    using at_boundary that by simp
  have none: "cutoff = Num 0"
    if "\<not> (0 < retainRecentMessages st \<and> retainRecentMessages st < length conv)"
    using that by (auto simp: cutoff timestampThreshold_def)
  from request_sent_Some [OF sent]
  have fm: "(case filter_must p of Some conds \<Rightarrow> conds | None \<Rightarrow> [])
              = filterConditions st cutoff cname"
    and after: "chat_after (searchMemories w h st ctx q cname) = removeExistingMemoryEntries (chat ctx)"
    by (simp_all add: Let_def cutoff conv)
  show ?thesis
    using conv_filter at_boundary ten none
    by (auto simp: fm after removeExistingMemoryEntries_filter filterConditions_def)
qed

theorem searchMemories_cutoff_and_filters_witness:
  "request_sent (searchMemories world_up example_host example_settings context10 ''q'' ''Alice'')
     = Some payload10
   \<and> retainRecentMessages example_settings = 5
   \<and> length conversation10 = 10
   \<and> normalizeSendDate example_host (send_date (conversation10 ! 5))
       = Some (timestampThreshold example_host example_settings conversation10)
   \<and> timestampThreshold example_host example_settings conversation10 = Num 6000
   \<and> TimestampLt (Num 6000) \<in> set (case filter_must payload10 of Some conds \<Rightarrow> conds | None \<Rightarrow> [])
   \<and> CharacterMatch ''Alice'' \<notin> set (case filter_must payload10 of Some conds \<Rightarrow> conds | None \<Rightarrow> [])"
proof -
  have five: "retainRecentMessages example_settings = 5"
    by (simp add: example_settings_def defaultSettings_def)
  have per: "usePerCharacterCollections example_settings"
    by (simp add: example_settings_def defaultSettings_def)
  have ten: "length conversation10 = 10"
    by (simp add: conversation10_def)
  have c: "conversation10
             = getConversationMessages example_host (removeExistingMemoryEntries (chat context10))"
    by (simp add: conv10 context10_def)
  note T = searchMemories_cutoff_and_filters [OF sent10 c refl, of "Num 6000" "''Alice''"]
  from T five ten per threshold10 sent10 show ?thesis
    by (simp add: positive_def)
qed

section \<open>Properties of the interceptor\<close>





section \<open>Properties of the bulk reindexer\<close>

lemma messageIds_createChunkFromMessages [simp]:
  "messageIds (createChunkFromMessages h now ms) = map messageId ms"
  by (simp add: createChunkFromMessages_def foldl_messages_step)

lemma ids_view_chat_step:
  assumes "ids_view a1 = ids_view a2"
  shows "ids_view (chat_step h now1 st n a1 im) = ids_view (chat_step h now2 st n a2 im)"
proof -
  obtain ch1 cur1 sz1 where a1: "a1 = (ch1, cur1, sz1)" by (cases a1)
  obtain ch2 cur2 sz2 where a2: "a2 = (ch2, cur2, sz2)" by (cases a2)
  obtain i msg where im: "im = (i, msg)" by (cases im)
  from assms have ch: "map messageIds ch1 = map messageIds ch2"
    and cur: "map messageId cur1 = map messageId cur2" and sz: "sz1 = sz2"
    by (simp_all add: ids_view_def a1 a2)
  from cur have len: "length cur1 = length cur2"
    by (rule map_eq_imp_length_eq)
  then have emp: "(cur1 = []) = (cur2 = [])"
    by auto
  show ?thesis
    using ch cur
    by (auto simp: a1 a2 im sz chat_step_def ids_view_def Let_def len emp)
qed

lemma ids_view_foldl:
  "ids_view a1 = ids_view a2 \<Longrightarrow>
     ids_view (foldl (chat_step h now1 st n) a1 ims) = ids_view (foldl (chat_step h now2 st n) a2 ims)"
proof (induction ims arbitrary: a1 a2)
  case Nil
  then show ?case by simp
next
  case (Cons im ims)
  have "ids_view (chat_step h now1 st n a1 im) = ids_view (chat_step h now2 st n a2 im)"
    using Cons.prems by (rule ids_view_chat_step)
  from Cons.IH [OF this] show ?case by simp
qed

lemma createChunksFromChat_ids:
  "map messageIds (createChunksFromChat h now1 st ms n)
     = map messageIds (createChunksFromChat h now2 st ms n)"
proof -
  obtain ch1 cur1 sz1 where f1:
    "foldl (chat_step h now1 st n) ([], [], 0) (zip [0..<length ms] ms) = (ch1, cur1, sz1)"
    by (cases "foldl (chat_step h now1 st n) ([], [], 0) (zip [0..<length ms] ms)")
  obtain ch2 cur2 sz2 where f2:
    "foldl (chat_step h now2 st n) ([], [], 0) (zip [0..<length ms] ms) = (ch2, cur2, sz2)"
    by (cases "foldl (chat_step h now2 st n) ([], [], 0) (zip [0..<length ms] ms)")
  have "ids_view (foldl (chat_step h now1 st n) ([], [], 0) (zip [0..<length ms] ms))
          = ids_view (foldl (chat_step h now2 st n) ([], [], 0) (zip [0..<length ms] ms))"
    by (rule ids_view_foldl) simp
  then have ch: "map messageIds ch1 = map messageIds ch2"
    and cur: "map messageId cur1 = map messageId cur2"
    by (simp_all add: f1 f2 ids_view_def)
  from cur have "length cur1 = length cur2"
    by (rule map_eq_imp_length_eq)
  then have emp: "(cur1 = []) = (cur2 = [])"
    by auto
  show ?thesis
    using ch cur by (simp add: createChunksFromChat_def f1 f2 emp)
qed

lemma nonempty_ids_chat_step:
  "nonempty_ids a \<Longrightarrow> nonempty_ids (chat_step h now st n a im)"
  by (cases a; cases im) (auto simp: chat_step_def nonempty_ids_def Let_def)

lemma nonempty_ids_foldl:
  "nonempty_ids a \<Longrightarrow> nonempty_ids (foldl (chat_step h now st n) a ims)"
  by (induction ims arbitrary: a) (simp_all add: nonempty_ids_chat_step)

lemma createChunksFromChat_nonempty:
  "c \<in> set (createChunksFromChat h now st ms n) \<Longrightarrow> messageIds c \<noteq> []"
proof -
  have "nonempty_ids (foldl (chat_step h now st n) ([], [], 0) (zip [0..<length ms] ms))"
    by (rule nonempty_ids_foldl) (simp add: nonempty_ids_def)
  then show "c \<in> set (createChunksFromChat h now st ms n) \<Longrightarrow> messageIds c \<noteq> []"
    by (auto simp: createChunksFromChat_def nonempty_ids_def list_all_iff split: prod.splits if_splits)
qed

lemma stored_match_append:
  "stored_match tm s cl ids \<Longrightarrow> stored_match tm (s @ extra) cl ids"
  "stored_match tm extra cl ids \<Longrightarrow> stored_match tm (s @ extra) cl ids"
  by (auto simp: stored_match_def list_ex_iff)

lemma save_ok_stores_match:
  assumes "faithful tm" and "messageIds c \<noteq> []"
      and "save_ok (saveChunkToQdrant w st c [n])"
  shows "stored_match tm (acknowledged (saveChunkToQdrant w st c [n]))
           (getCollectionName st n) (messageIds c)"
proof -
  from assms(2) obtain i where i: "i \<in> set (messageIds c)"
    by (cases "messageIds c") auto
  with assms(1) have tm: "tm (join '','' (messageIds c)) i"
    by (simp add: faithful_def)
  from assms(3) obtain e where
    emb: "generateEmbedding (extension_settings w) (fetch_embedding w) (chunk_text c)
            = Resolved (Some e)" and tr: "truthy e"
    by (auto simp: saveChunkToQdrant_def split: promise.splits option.splits if_splits)
  from assms(3) emb tr have ready: "ensureCollection w st n"
    by (auto simp: saveChunkToQdrant_def Let_def save_to_participant_def split: if_splits)
  from assms(3) emb tr ready
  have put: "put_points w (getCollectionName st n)
               \<lparr> point_id = generateUUID (random w), vector = e,
                 point_payload = with_character (base_payload c) n \<rparr> = Some True"
    by (auto simp: saveChunkToQdrant_def Let_def save_to_participant_def
          List.map_filter_simps split: if_splits)
  have "acknowledged (saveChunkToQdrant w st c [n]) =
          [(getCollectionName st n,
            \<lparr> point_id = generateUUID (random w), vector = e,
              point_payload = with_character (base_payload c) n \<rparr>)]"
    using emb tr ready put
    by (simp add: saveChunkToQdrant_def Let_def save_to_participant_def List.map_filter_simps)
  then show ?thesis
    using i tm
    by (auto simp: stored_match_def list_ex_iff with_character_def base_payload_def)
qed

lemma chunks_loop_progress:
  assumes "\<forall>k. \<not> clicked env k" and "faithful (text_match env)"
  shows "\<not> cancelled s \<Longrightarrow> \<forall>c \<in> set cs. messageIds c \<noteq> [] \<Longrightarrow>
     (let s' = chunks_loop env st n cs s in
        \<not> cancelled s' \<and> totalChunks s' = totalChunks s
        \<and> (\<exists>extra. store s' = store s @ extra)
        \<and> savedChunks s' + skippedChunks s' \<le> savedChunks s + skippedChunks s + length cs
        \<and> savedChunks s + skippedChunks s \<le> savedChunks s' + skippedChunks s'
        \<and> (savedChunks s' + skippedChunks s' = savedChunks s + skippedChunks s + length cs \<longrightarrow>
             (\<forall>c \<in> set cs. stored_match (text_match env) (store s')
                              (getCollectionName st n) (messageIds c))))"
proof (induction cs arbitrary: s)
  case Nil
  then show ?case by simp
next
  case (Cons c cs)
  let ?s1 = "read_cancelled env s"
  let ?s2 = "?s1\<lparr>handled := Suc (handled ?s1)\<rparr>"
  let ?w = "world_at env (handled ?s1)"
  let ?cl = "getCollectionName st n"
  have nc: "\<not> cancelled ?s1"
    using Cons.prems(1) assms(1) by (simp add: read_cancelled_def)
  have ids: "messageIds c \<noteq> []" and rest: "\<forall>c \<in> set cs. messageIds c \<noteq> []"
    using Cons.prems(2) by simp_all
  show ?case
  proof (cases "chunkExists ?w (text_match env) (store ?s2) ?cl (messageIds c)")
    case True
    let ?s3 = "?s2\<lparr>skippedChunks := Suc (skippedChunks ?s2)\<rparr>"
    have step: "chunks_loop env st n (c # cs) s = chunks_loop env st n cs ?s3"
      using nc True by (simp add: Let_def)
    have here: "stored_match (text_match env) (store s) ?cl (messageIds c)"
      using True by (simp add: chunkExists_def read_cancelled_def split: if_splits)
    have nc3: "\<not> cancelled ?s3" using nc by simp
    note IH = Cons.IH [OF nc3 rest, unfolded Let_def]
    from IH obtain extra where extra: "store (chunks_loop env st n cs ?s3) = store s @ extra"
      by (auto simp: read_cancelled_def)
    show ?thesis
      unfolding Let_def step
      using IH here extra
      by (auto simp: read_cancelled_def stored_match_append)
  next
    case False
    let ?r = "saveChunkToQdrant ?w st c [n]"
    let ?s3 = "?s2\<lparr>store := store ?s2 @ acknowledged ?r,
                     savedChunks := (if save_ok ?r then Suc (savedChunks ?s2) else savedChunks ?s2)\<rparr>"
    have step: "chunks_loop env st n (c # cs) s = chunks_loop env st n cs ?s3"
      using nc False by (simp add: Let_def)
    have nc3: "\<not> cancelled ?s3" using nc by simp
    note IH = Cons.IH [OF nc3 rest, unfolded Let_def]
    from IH obtain extra where
      extra: "store (chunks_loop env st n cs ?s3) = (store s @ acknowledged ?r) @ extra"
      by (auto simp: read_cancelled_def)
    have here: "stored_match (text_match env) (store (chunks_loop env st n cs ?s3)) ?cl (messageIds c)"
      if "save_ok ?r"
      unfolding extra
      by (intro stored_match_append save_ok_stores_match [OF assms(2) ids that])
    show ?thesis
      unfolding Let_def step
      using IH here extra
      by (auto simp: read_cancelled_def split: if_splits)
  qed
qed

lemma all_chunks_simps:
  "all_chunks h env st n [] = []"
  "all_chunks h env st n (f # fs) =
     (case loadChatFile env f of
        None \<Rightarrow> []
      | Some chatData \<Rightarrow> createChunksFromChat h (clock env) st chatData n)
     @ all_chunks h env st n fs"
  by (simp_all add: all_chunks_def)

lemma all_chunks_nonempty:
  "c \<in> set (all_chunks h env st n fs) \<Longrightarrow> messageIds c \<noteq> []"
  by (auto simp: all_chunks_def createChunksFromChat_nonempty split: option.splits)

lemma all_chunks_ids:
  "loadChatFile env2 = loadChatFile env1 \<Longrightarrow>
     map messageIds (all_chunks h env2 st n fs) = map messageIds (all_chunks h env1 st n fs)"
proof (induction fs)
  case Nil
  then show ?case by (simp add: all_chunks_simps)
next
  case (Cons f fs)
  then show ?case
    using createChunksFromChat_ids [of h "clock env2" st _ n "clock env1"]
    by (simp add: all_chunks_simps split: option.splits)
qed

lemma files_loop_progress:
  assumes "\<forall>k. \<not> clicked env k" and "faithful (text_match env)"
  shows "\<not> cancelled s \<Longrightarrow>
     (let s' = files_loop h env st n fs s; cs = all_chunks h env st n fs in
        \<not> cancelled s' \<and> totalChunks s' = totalChunks s + length cs
        \<and> (\<exists>extra. store s' = store s @ extra)
        \<and> savedChunks s' + skippedChunks s' \<le> savedChunks s + skippedChunks s + length cs
        \<and> savedChunks s + skippedChunks s \<le> savedChunks s' + skippedChunks s'
        \<and> (savedChunks s' + skippedChunks s' = savedChunks s + skippedChunks s + length cs \<longrightarrow>
             (\<forall>c \<in> set cs. stored_match (text_match env) (store s')
                              (getCollectionName st n) (messageIds c))))"
proof (induction fs arbitrary: s)
  case Nil
  then show ?case by (simp add: all_chunks_simps)
next
  case (Cons f fs)
  let ?s1 = "read_cancelled env s"
  have nc: "\<not> cancelled ?s1"
    using Cons.prems assms(1) by (simp add: read_cancelled_def)
  show ?case
  proof (cases "loadChatFile env f")
    case None
    have step: "files_loop h env st n (f # fs) s = files_loop h env st n fs ?s1"
      using nc None by (simp add: Let_def)
    have cs: "all_chunks h env st n (f # fs) = all_chunks h env st n fs"
      using None by (simp add: all_chunks_simps)
    from Cons.IH [OF nc] show ?thesis
      unfolding Let_def step cs by (simp add: read_cancelled_def)
  next
    case (Some chatData)
    let ?chunks = "createChunksFromChat h (clock env) st chatData n"
    let ?s2 = "?s1\<lparr>totalChunks := totalChunks ?s1 + length ?chunks\<rparr>"
    let ?s3 = "chunks_loop env st n ?chunks ?s2"
    let ?rest = "all_chunks h env st n fs"
    let ?cl = "getCollectionName st n"
    have step: "files_loop h env st n (f # fs) s = files_loop h env st n fs ?s3"
      using nc Some by (simp add: Let_def)
    have cs: "all_chunks h env st n (f # fs) = ?chunks @ ?rest"
      using Some by (simp add: all_chunks_simps)
    have nc2: "\<not> cancelled ?s2" using nc by simp
    have ne: "\<forall>c \<in> set ?chunks. messageIds c \<noteq> []"
      by (simp add: createChunksFromChat_nonempty)
    note C = chunks_loop_progress [OF assms nc2 ne, of st n, unfolded Let_def]
    from C have nc3: "\<not> cancelled ?s3" by simp
    note IH = Cons.IH [OF nc3, unfolded Let_def]
    from C obtain e1 where e1: "store ?s3 = store s @ e1"
      by (auto simp: read_cancelled_def)
    from IH obtain e2 where e2: "store (files_loop h env st n fs ?s3) = store ?s3 @ e2"
      by auto
    have total: "totalChunks (files_loop h env st n fs ?s3)
                   = totalChunks s + length (?chunks @ ?rest)"
      using C IH by (simp add: read_cancelled_def)
    have upper: "savedChunks (files_loop h env st n fs ?s3) + skippedChunks (files_loop h env st n fs ?s3)
                   \<le> savedChunks s + skippedChunks s + length (?chunks @ ?rest)"
      using C IH by (simp add: read_cancelled_def)
    have lower: "savedChunks s + skippedChunks s
                   \<le> savedChunks (files_loop h env st n fs ?s3) + skippedChunks (files_loop h env st n fs ?s3)"
      using C IH by (simp add: read_cancelled_def)
    have matched: "\<forall>c \<in> set (?chunks @ ?rest).
                     stored_match (text_match env) (store (files_loop h env st n fs ?s3)) ?cl (messageIds c)"
      if eq: "savedChunks (files_loop h env st n fs ?s3) + skippedChunks (files_loop h env st n fs ?s3)
                = savedChunks s + skippedChunks s + length (?chunks @ ?rest)"
    proof -
      from eq C IH have eq1: "savedChunks ?s3 + skippedChunks ?s3
                                = savedChunks ?s2 + skippedChunks ?s2 + length ?chunks"
        and eq2: "savedChunks (files_loop h env st n fs ?s3) + skippedChunks (files_loop h env st n fs ?s3)
                    = savedChunks ?s3 + skippedChunks ?s3 + length ?rest"
        by (simp_all add: read_cancelled_def)
      from C eq1 have m1: "\<forall>c \<in> set ?chunks. stored_match (text_match env) (store ?s3) ?cl (messageIds c)"
        by blast
      from IH eq2 have m2: "\<forall>c \<in> set ?rest.
            stored_match (text_match env) (store (files_loop h env st n fs ?s3)) ?cl (messageIds c)"
        by blast
      from m1 m2 show ?thesis
        by (auto simp: e2 stored_match_append)
    qed
    have ext: "\<exists>extra. store (files_loop h env st n fs ?s3) = store s @ extra"
      using e1 e2 by simp
    from IH have nc': "\<not> cancelled (files_loop h env st n fs ?s3)" by simp
    show ?thesis
      unfolding Let_def step cs
      using nc' total ext upper lower matched by blast
  qed
qed

lemma chunks_loop_all_skipped:
  assumes "\<forall>k. \<not> clicked env k" and "\<forall>k cl ids. \<not> scroll_fails (world_at env k) cl ids"
  shows "\<not> cancelled s \<Longrightarrow>
     \<forall>c \<in> set cs. stored_match (text_match env) (store s) (getCollectionName st n) (messageIds c) \<Longrightarrow>
     (let s' = chunks_loop env st n cs s in
        \<not> cancelled s' \<and> store s' = store s \<and> totalChunks s' = totalChunks s
        \<and> savedChunks s' = savedChunks s \<and> skippedChunks s' = skippedChunks s + length cs)"
proof (induction cs arbitrary: s)
  case Nil
  then show ?case by simp
next
  case (Cons c cs)
  let ?s1 = "read_cancelled env s"
  let ?s2 = "?s1\<lparr>handled := Suc (handled ?s1)\<rparr>"
  let ?s3 = "?s2\<lparr>skippedChunks := Suc (skippedChunks ?s2)\<rparr>"
  have nc: "\<not> cancelled ?s1"
    using Cons.prems(1) assms(1) by (simp add: read_cancelled_def)
  have ex: "chunkExists (world_at env (handled ?s1)) (text_match env) (store ?s2)
              (getCollectionName st n) (messageIds c)"
    using Cons.prems(2) assms(2) by (simp add: chunkExists_def read_cancelled_def)
  have step: "chunks_loop env st n (c # cs) s = chunks_loop env st n cs ?s3"
    using nc ex by (simp add: Let_def)
  have nc3: "\<not> cancelled ?s3" using nc by simp
  have rest: "\<forall>c \<in> set cs. stored_match (text_match env) (store ?s3) (getCollectionName st n) (messageIds c)"
    using Cons.prems(2) by (simp add: read_cancelled_def)
  from Cons.IH [OF nc3 rest] show ?case
    unfolding Let_def step by (simp add: read_cancelled_def)
qed

lemma files_loop_all_skipped:
  assumes "\<forall>k. \<not> clicked env k" and "\<forall>k cl ids. \<not> scroll_fails (world_at env k) cl ids"
  shows "\<not> cancelled s \<Longrightarrow>
     \<forall>c \<in> set (all_chunks h env st n fs).
        stored_match (text_match env) (store s) (getCollectionName st n) (messageIds c) \<Longrightarrow>
     (let s' = files_loop h env st n fs s in
        \<not> cancelled s' \<and> store s' = store s
        \<and> totalChunks s' = totalChunks s + length (all_chunks h env st n fs)
        \<and> savedChunks s' = savedChunks s
        \<and> skippedChunks s' = skippedChunks s + length (all_chunks h env st n fs))"
proof (induction fs arbitrary: s)
  case Nil
  then show ?case by (simp add: all_chunks_simps)
next
  case (Cons f fs)
  let ?s1 = "read_cancelled env s"
  have nc: "\<not> cancelled ?s1"
    using Cons.prems(1) assms(1) by (simp add: read_cancelled_def)
  show ?case
  proof (cases "loadChatFile env f")
    case None
    have step: "files_loop h env st n (f # fs) s = files_loop h env st n fs ?s1"
      using nc None by (simp add: Let_def)
    have cs: "all_chunks h env st n (f # fs) = all_chunks h env st n fs"
      using None by (simp add: all_chunks_simps)
    have rest: "\<forall>c \<in> set (all_chunks h env st n fs).
        stored_match (text_match env) (store ?s1) (getCollectionName st n) (messageIds c)"
      using Cons.prems(2) by (simp add: cs read_cancelled_def)
    from Cons.IH [OF nc rest] show ?thesis
      unfolding Let_def step cs by (simp add: read_cancelled_def)
  next
    case (Some chatData)
    let ?chunks = "createChunksFromChat h (clock env) st chatData n"
    let ?s2 = "?s1\<lparr>totalChunks := totalChunks ?s1 + length ?chunks\<rparr>"
    let ?s3 = "chunks_loop env st n ?chunks ?s2"
    have step: "files_loop h env st n (f # fs) s = files_loop h env st n fs ?s3"
      using nc Some by (simp add: Let_def)
    have cs: "all_chunks h env st n (f # fs) = ?chunks @ all_chunks h env st n fs"
      using Some by (simp add: all_chunks_simps)
    have nc2: "\<not> cancelled ?s2" using nc by simp
    have here: "\<forall>c \<in> set ?chunks.
        stored_match (text_match env) (store ?s2) (getCollectionName st n) (messageIds c)"
      using Cons.prems(2) by (simp add: cs read_cancelled_def)
    note C = chunks_loop_all_skipped [OF assms nc2 here, unfolded Let_def]
    from C have nc3: "\<not> cancelled ?s3" by simp
    have rest: "\<forall>c \<in> set (all_chunks h env st n fs).
        stored_match (text_match env) (store ?s3) (getCollectionName st n) (messageIds c)"
      using Cons.prems(2) C by (simp add: cs read_cancelled_def)
    from Cons.IH [OF nc3 rest] C show ?thesis
      unfolding Let_def step cs by (simp add: read_cancelled_def)
  qed
qed

text \<open>
  Claim C5, as the code has it. Take two runs of \<open>indexCharacterChats\<close> over the
  same files with the same contents, neither cancelled, the second started on the
  points the first left in storage, where the service finds every identifier in a
  stored member made from it and answers every probe of the second run. If the first
  run saved or skipped every chunk it made (no save failed), the second run saves
  nothing, skips every chunk, that is as many as the first run saved and skipped
  together, and leaves the stored points as they were.
\<close>

theorem reindex_twice:
  assumes faithful: "faithful (text_match env1)"
      and same_storage: "text_match env2 = text_match env1"
      and same_files: "chatFiles env2 = chatFiles env1" "loadChatFile env2 = loadChatFile env1"
      and not_cancelled: "\<forall>k. \<not> clicked env1 k" "\<forall>k. \<not> clicked env2 k"
      and probes_answered: "\<forall>k cl ids. \<not> scroll_fails (world_at env2 k) cl ids"
      and first: "indexCharacterChats h st ctx env1 store0 = Some r1"
      and none_failed: "savedChunks r1 + skippedChunks r1 = totalChunks r1"
  shows "\<exists>r2. indexCharacterChats h st ctx env2 (store r1) = Some r2
           \<and> savedChunks r2 = 0
           \<and> skippedChunks r2 = savedChunks r1 + skippedChunks r1
           \<and> totalChunks r2 = totalChunks r1
           \<and> store r2 = store r1"
proof -
  let ?n = "name2 ctx"
  let ?init = "\<lambda>s0. \<lparr> store = s0, totalChunks = 0, savedChunks = 0, skippedChunks = 0,
                       cancelled = False, reads = 0, handled = 0 \<rparr>"
  from first have guards: "name2 ctx \<noteq> []"
      "\<not> (providerRequiresApiKey (provider st) \<and> getEffectiveEmbeddingApiKey st = [])"
      "length (chatFiles env1) \<noteq> 0"
    and r1: "r1 = files_loop h env1 st ?n (chatFiles env1) (?init store0)"
    by (auto simp: indexCharacterChats_def split: if_splits)
  note P = files_loop_progress [OF not_cancelled(1) faithful, of "?init store0" h st ?n
             "chatFiles env1", unfolded Let_def, folded r1]
  from P have total1: "totalChunks r1 = length (all_chunks h env1 st ?n (chatFiles env1))"
    by simp
  from P none_failed total1
  have matched1: "\<forall>c \<in> set (all_chunks h env1 st ?n (chatFiles env1)).
      stored_match (text_match env1) (store r1) (getCollectionName st ?n) (messageIds c)"
    by simp
  have ids: "map messageIds (all_chunks h env2 st ?n (chatFiles env1))
               = map messageIds (all_chunks h env1 st ?n (chatFiles env1))"
    by (rule all_chunks_ids [OF same_files(2)])
  then have len: "length (all_chunks h env2 st ?n (chatFiles env1))
                    = length (all_chunks h env1 st ?n (chatFiles env1))"
    by (rule map_eq_imp_length_eq)
  have matched2: "\<forall>c \<in> set (all_chunks h env2 st ?n (chatFiles env1)).
      stored_match (text_match env2) (store (?init (store r1))) (getCollectionName st ?n) (messageIds c)"
  proof
    fix c assume "c \<in> set (all_chunks h env2 st ?n (chatFiles env1))"
    then have "messageIds c \<in> set (map messageIds (all_chunks h env2 st ?n (chatFiles env1)))"
      by simp
    then have "messageIds c \<in> set (map messageIds (all_chunks h env1 st ?n (chatFiles env1)))"
      by (simp only: ids)
    then obtain c' where "c' \<in> set (all_chunks h env1 st ?n (chatFiles env1))"
        and "messageIds c' = messageIds c"
      by auto
    with matched1 show "stored_match (text_match env2) (store (?init (store r1)))
                          (getCollectionName st ?n) (messageIds c)"
      by (auto simp: same_storage)
  qed
  note S = files_loop_all_skipped [OF not_cancelled(2) probes_answered, of "?init (store r1)" h st ?n
             "chatFiles env1", OF _ matched2, unfolded Let_def]
  have "indexCharacterChats h st ctx env2 (store r1)
          = Some (files_loop h env2 st ?n (chatFiles env1) (?init (store r1)))"
    using guards by (simp add: indexCharacterChats_def same_files)
  moreover from S have
    "savedChunks (files_loop h env2 st ?n (chatFiles env1) (?init (store r1))) = 0"
    "skippedChunks (files_loop h env2 st ?n (chatFiles env1) (?init (store r1)))
       = savedChunks r1 + skippedChunks r1"
    "totalChunks (files_loop h env2 st ?n (chatFiles env1) (?init (store r1))) = totalChunks r1"
    "store (files_loop h env2 st ?n (chatFiles env1) (?init (store r1))) = store r1"
    using len total1 none_failed by simp_all
  ultimately show ?thesis by simp
qed

lemma is_prefix_append: "is_prefix p (p @ s)"
  by (induction p) simp_all

lemma contains_append: "contains (a @ p @ b) p"
proof (induction a)
  case Nil
  show ?case by (cases "p @ b") (use is_prefix_append [of p b] in auto)
next
  case (Cons c a)
  then show ?case by simp
qed

lemma join_has: "i \<in> set ids \<Longrightarrow> \<exists>a b. join sep ids = a @ i @ b"
proof (induction sep ids rule: join.induct)
  case (1 sep)
  then show ?case by simp
next
  case (2 sep x)
  then have "join sep [x] = [] @ i @ []" by simp
  then show ?case by blast
next
  case (3 sep x y ys)
  show ?case
  proof (cases "i = x")
    case True
    then have "join sep (x # y # ys) = [] @ i @ (sep @ join sep (y # ys))" by simp
    then show ?thesis by blast
  next
    case False
    with 3 obtain a b where "join sep (y # ys) = a @ i @ b" by auto
    then have "join sep (x # y # ys) = (x @ sep @ a) @ i @ b" by simp
    then show ?thesis by blast
  qed
qed

lemma faithful_contains: "faithful contains"
  unfolding faithful_def
proof (intro allI impI)
  fix ids :: "string list" and i assume "i \<in> set ids"
  then obtain a b where "join '','' ids = a @ i @ b"
    using join_has by blast
  then show "contains (join '','' ids) i"
    by (simp add: contains_append)
qed

lemma lake_chunks:
  "createChunksFromChat example_host 5000 example_settings [lake_message] ''Alice'' = [lake_chunk]"
  by (simp add: createChunksFromChat_def chat_step_def lake_message_def Let_def trim_def
        is_space_def example_settings_def defaultSettings_def createChunkFromMessages_def
        messages_step_def before_oldest_def example_host_def line_of_def speaker_of_def
        set_add_def lake_chunk_def)

lemma alice_collection: "getCollectionName example_settings ''Alice'' = ''mem_alice''"
  by (simp add: getCollectionName_def example_settings_def defaultSettings_def
        toLowerCase_def sanitize_char_def strip_ends_def)

lemma save_lake_up:
  "saveChunkToQdrant world_up example_settings lake_chunk [''Alice'']
     = \<lparr> save_ok = True, sent = [(''mem_alice'', lake_point)],
         acknowledged = [(''mem_alice'', lake_point)] \<rparr>"
proof -
  have "generateEmbedding (extension_settings world_up) (fetch_embedding world_up)
          (chunk_text lake_chunk) = Resolved (Some (JArr [JNum 1, JNum 2]))"
    by (rule embedding_world_up)
  then show ?thesis
    by (simp add: saveChunkToQdrant_def Let_def save_to_participant_def ready_up uuid_up
          alice_collection List.map_filter_simps)
       (simp add: world_up_def lake_chunk_def lake_point_def base_payload_def with_character_def)
qed

lemma save_lake_down:
  "saveChunkToQdrant world_down example_settings lake_chunk [''Alice'']
     = \<lparr> save_ok = False, sent = [], acknowledged = [] \<rparr>"
  by (simp add: saveChunkToQdrant_def generateEmbedding_def world_down_def)

lemma lake_found:
  "stored_match contains [(''mem_alice'', lake_point)] ''mem_alice'' (messageIds lake_chunk)"
  by (simp add: stored_match_def lake_point_def lake_chunk_def)

lemma stored_match_Nil: "stored_match tm [] cl ids = False"
  by (simp add: stored_match_def)

lemma probes_up: "scroll_fails world_up cl ids = False"
  by (simp add: world_up_def)

lemma probes_down: "scroll_fails world_down cl ids = False"
  by (simp add: world_down_def)

lemma guards_ok:
  "name2 example_context = ''Alice''"
  "\<not> (providerRequiresApiKey (provider example_settings)
       \<and> getEffectiveEmbeddingApiKey example_settings = [])"
  by (simp_all add: example_context_def example_settings_def defaultSettings_def
        getEffectiveEmbeddingApiKey_def or_else_def)

lemma twins_first_run:
  "indexCharacterChats example_host example_settings example_context env_twins [] = Some twins_first"
  by (simp add: indexCharacterChats_def guards_ok)
     (simp add: env_twins_def read_cancelled_def lake_chunks Let_def chunkExists_def
        alice_collection save_lake_up lake_found twins_first_def stored_match_Nil probes_up)

lemma twins_second_run:
  "indexCharacterChats example_host example_settings example_context env_twins (store twins_first)
     = Some twins_second"
  by (simp add: indexCharacterChats_def guards_ok)
     (simp add: env_twins_def read_cancelled_def lake_chunks Let_def chunkExists_def
        alice_collection lake_found twins_first_def twins_second_def probes_up)

lemma single_failed_run:
  "indexCharacterChats example_host example_settings example_context env_single_down []
     = Some single_failed"
  by (simp add: indexCharacterChats_def guards_ok)
     (simp add: env_single_down_def read_cancelled_def lake_chunks Let_def chunkExists_def
        alice_collection save_lake_down single_failed_def stored_match_Nil probes_down)

lemma single_saved_run:
  "indexCharacterChats example_host example_settings example_context env_single_up
     (store single_failed) = Some single_saved"
  by (simp add: indexCharacterChats_def guards_ok)
     (simp add: env_single_up_def env_single_down_def read_cancelled_def lake_chunks Let_def
        chunkExists_def alice_collection save_lake_up single_failed_def single_saved_def
        stored_match_Nil probes_up)

text \<open>
  Claim C5 as the spec states it fails in two ways. With a chat and a copy of it (the
  same message, so the same member identifier), the first run on empty storage saves
  one chunk and skips the other; the second run skips two, not one. With the embedding
  provider down during the first run, nothing is saved or skipped; the second run,
  with the provider up, saves one chunk, not none.
\<close>

theorem reindex_twice_counts_differ:
  "indexCharacterChats example_host example_settings example_context env_twins [] = Some twins_first
   \<and> savedChunks twins_first = 1
   \<and> indexCharacterChats example_host example_settings example_context env_twins
        (store twins_first) = Some twins_second
   \<and> skippedChunks twins_second = 2
   \<and> indexCharacterChats example_host example_settings example_context env_single_down []
        = Some single_failed
   \<and> indexCharacterChats example_host example_settings example_context env_single_up
        (store single_failed) = Some single_saved
   \<and> savedChunks single_saved = 1"
  using twins_first_run twins_second_run single_failed_run single_saved_run
  by (simp add: twins_first_def twins_second_def single_saved_def)

theorem reindex_twice_witness:
  "indexCharacterChats example_host example_settings example_context env_twins [] = Some twins_first
   \<and> savedChunks twins_first + skippedChunks twins_first = totalChunks twins_first
   \<and> (\<exists>r2. indexCharacterChats example_host example_settings example_context env_twins
               (store twins_first) = Some r2
            \<and> savedChunks r2 = 0 \<and> skippedChunks r2 = 2 \<and> store r2 = store twins_first)"
proof -
  have f: "faithful (text_match env_twins)"
    by (simp add: env_twins_def faithful_contains)
  have nc: "\<forall>k. \<not> clicked env_twins k"
    by (simp add: env_twins_def)
  have pr: "\<forall>k cl ids. \<not> scroll_fails (world_at env_twins k) cl ids"
    by (simp add: env_twins_def probes_up)
  have all: "savedChunks twins_first + skippedChunks twins_first = totalChunks twins_first"
    by (simp add: twins_first_def)
  have two: "savedChunks twins_first + skippedChunks twins_first = 2"
    by (simp add: twins_first_def)
  from reindex_twice [OF f refl refl refl nc nc pr twins_first_run all]
  obtain r2 where
    "indexCharacterChats example_host example_settings example_context env_twins
       (store twins_first) = Some r2"
    "savedChunks r2 = 0" "skippedChunks r2 = 2" "store r2 = store twins_first"
    unfolding two by blast
  with twins_first_run all show ?thesis
    by blast
qed

section \<open>Properties of the chunk builder\<close>








end
